theory Spec2Isabelle
  imports Complex_Main "HOL-Library.Monad_Syntax"
begin

section \<open>Spike-and-slab RBM policy (spike\_slab\_rbm\_policy\_impl.hpp)\<close>

text \<open>
  The embedding follows \<^verbatim>\<open>SpikeSlabRBMPolicy\<close> member by member.  Conventions:
  \<^item> a \<^verbatim>\<open>double\<close> is a \<open>real\<close>: the model speaks about finite values and exact
    arithmetic, rounding and the non-finite doubles are outside it;
  \<^item> a \<^verbatim>\<open>size_t\<close> is a \<open>nat\<close> (no dimension product is near \<open>2 ^ 64\<close>);
  \<^item> an \<^verbatim>\<open>arma::mat\<close> is a record of its shape and its column-major memory;
  \<^item> an object built on foreign memory (\<^verbatim>\<open>arma::mat(ptr, r, c, false, false)\<close>) is a
    \<open>view\<close>: an offset into the buffer it aliases, and a shape;
  \<^item> a call that stops the program returns \<open>None\<close>: a failed \<^verbatim>\<open>assert\<close>, Armadillo's
    error on the inverse of a singular matrix, a write outside the aliased buffer;
  \<^item> Armadillo's other run-time checks (index bounds of \<^verbatim>\<open>A(i)\<close>, \<^verbatim>\<open>col\<close> and \<^verbatim>\<open>slice\<close>,
    conforming shapes of products and sums) are not branches of the model.  They all
    pass on an object whose views are those of \<^verbatim>\<open>Reset\<close>, called with matrices whose
    shape describes their memory and that pass the assertions.  Where one of them
    would stop the source, the model still returns a value: a statement of the form
    \<open>op \<dots> = Some r \<Longrightarrow> \<dots>\<close> covers every run in which the source returns;
  \<^item> the random number generator is an explicit state \<open>'g\<close>, threaded through the
    calls in the order the source makes them; \<^verbatim>\<open>math::RandBernoulli\<close> and
    \<^verbatim>\<open>math::RandNormal\<close> are declared outside the given sources and are parameters
    \<open>rb\<close> and \<open>rn\<close> of the operations that call them.
\<close>

subsection \<open>Matrices\<close>

record mat =
  n_rows :: nat
  n_cols :: nat
  mem :: "real list"

definition n_elem :: "mat \<Rightarrow> nat" where
  "n_elem A = n_rows A * n_cols A"

text \<open>The shape describes the memory.\<close>

definition mat_ok :: "mat \<Rightarrow> bool" where
  "mat_ok A \<longleftrightarrow> length (mem A) = n_rows A * n_cols A"

text \<open>\<^verbatim>\<open>A(r, c)\<close> and the linear \<^verbatim>\<open>A(i)\<close>, column-major.\<close>

definition m_at :: "mat \<Rightarrow> nat \<Rightarrow> nat \<Rightarrow> real" where
  "m_at A r c = mem A ! (r + n_rows A * c)"

definition elem :: "mat \<Rightarrow> nat \<Rightarrow> real" where
  "elem A i = mem A ! i"

text \<open>The matrix with \<open>R\<close> rows and \<open>C\<close> columns whose entry \<open>(r, c)\<close> is \<open>f r c\<close>.\<close>

definition mk_mat :: "nat \<Rightarrow> nat \<Rightarrow> (nat \<Rightarrow> nat \<Rightarrow> real) \<Rightarrow> mat" where
  "mk_mat R C f =
     \<lparr>n_rows = R, n_cols = C,
      mem = concat (map (\<lambda>c. map (\<lambda>r. f r c) [0..<R]) [0..<C])\<rparr>"

text \<open>\<^verbatim>\<open>A.t()\<close>\<close>

definition t :: "mat \<Rightarrow> mat" where
  "t A = mk_mat (n_cols A) (n_rows A) (\<lambda>r c. m_at A c r)"

text \<open>\<^verbatim>\<open>A * B\<close> for matrices of conforming shapes.\<close>

definition times_mat :: "mat \<Rightarrow> mat \<Rightarrow> mat" where
  "times_mat A B =
     mk_mat (n_rows A) (n_cols B)
       (\<lambda>r c. sum_list (map (\<lambda>j. m_at A r j * m_at B j c) [0..<n_cols A]))"

text \<open>\<^verbatim>\<open>A * x\<close> and \<^verbatim>\<open>x * A\<close> for a scalar \<open>x\<close>.\<close>

definition scale_r :: "mat \<Rightarrow> real \<Rightarrow> mat" where
  "scale_r A x = A\<lparr>mem := map (\<lambda>a. a * x) (mem A)\<rparr>"

definition scale_l :: "real \<Rightarrow> mat \<Rightarrow> mat" where
  "scale_l x A = A\<lparr>mem := map (\<lambda>a. x * a) (mem A)\<rparr>"

text \<open>\<^verbatim>\<open>A += B\<close>\<close>

definition plus_mat :: "mat \<Rightarrow> mat \<Rightarrow> mat" where
  "plus_mat A B = A\<lparr>mem := map2 (+) (mem A) (mem B)\<rparr>"

text \<open>\<^verbatim>\<open>A.col(c)\<close>\<close>

definition col :: "mat \<Rightarrow> nat \<Rightarrow> mat" where
  "col A c = \<lparr>n_rows = n_rows A, n_cols = 1,
              mem = take (n_rows A) (drop (n_rows A * c) (mem A))\<rparr>"

text \<open>\<^verbatim>\<open>arma::diagmat(v)\<close> of a vector\<close>

definition diagmat :: "mat \<Rightarrow> mat" where
  "diagmat v = mk_mat (n_elem v) (n_elem v) (\<lambda>r c. if r = c then elem v r else 0)"

text \<open>
  \<^verbatim>\<open>arma::diagmat(v).i()\<close>: Armadillo inverts a diagonal matrix entry by entry and
  raises an error when a diagonal entry is zero.
\<close>

definition diagmat_i :: "mat \<Rightarrow> mat option" where
  "diagmat_i v =
     (if 0 \<in> set (mem v) then None
      else Some (mk_mat (n_elem v) (n_elem v) (\<lambda>r c. if r = c then 1 / elem v r else 0)))"

text \<open>\<^verbatim>\<open>arma::as_scalar(A)\<close> of a one-by-one matrix\<close>

definition as_scalar :: "mat \<Rightarrow> real" where
  "as_scalar A = elem A 0"

text \<open>\<^verbatim>\<open>arma::norm(A)\<close>, the Euclidean norm of a vector\<close>

definition norm2 :: "mat \<Rightarrow> real" where
  "norm2 A = sqrt (sum_list (map (\<lambda>a. a * a) (mem A)))"

text \<open>\<^verbatim>\<open>A(i) = x\<close>\<close>

definition put :: "mat \<Rightarrow> nat \<Rightarrow> real \<Rightarrow> mat" where
  "put A i x = A\<lparr>mem := (mem A)[i := x]\<rparr>"

text \<open>\<^verbatim>\<open>A.col(c) = B\<close>\<close>

definition put_col :: "mat \<Rightarrow> nat \<Rightarrow> mat \<Rightarrow> mat" where
  "put_col A c B =
     A\<lparr>mem := take (n_rows A * c) (mem A) @ mem B @ drop (n_rows A * c + n_rows A) (mem A)\<rparr>"

text \<open>
  \<^verbatim>\<open>A.set_size(r, c)\<close> does not initialise: the memory is kept when the number of
  elements does not change, and is fresh otherwise.  \<open>junk\<close> is the content of fresh
  memory.
\<close>

definition set_size :: "mat \<Rightarrow> nat \<Rightarrow> nat \<Rightarrow> (nat \<Rightarrow> real) \<Rightarrow> mat" where
  "set_size A r c junk =
     (if length (mem A) = r * c then A\<lparr>n_rows := r, n_cols := c\<rparr>
      else \<lparr>n_rows = r, n_cols = c, mem = map junk [0..<r * c]\<rparr>)"

text \<open>A default-constructed \<^verbatim>\<open>arma::mat\<close>\<close>

definition empty_mat :: mat where
  "empty_mat = \<lparr>n_rows = 0, n_cols = 0, mem = []\<rparr>"

subsection \<open>Views on foreign memory\<close>

record view =
  v_off :: nat
  v_rows :: nat
  v_cols :: nat
  v_slices :: nat

definition v_n_elem :: "view \<Rightarrow> nat" where
  "v_n_elem w = v_rows w * v_cols w * v_slices w"

text \<open>The positions of the aliased buffer that a view covers.\<close>

definition v_range :: "view \<Rightarrow> nat set" where
  "v_range w = {v_off w ..< v_off w + v_n_elem w}"

text \<open>A default-constructed cube or matrix\<close>

definition empty_view :: view where
  "empty_view = \<lparr>v_off = 0, v_rows = 0, v_cols = 0, v_slices = 0\<rparr>"

text \<open>Reading through a view: \<^verbatim>\<open>w(i)\<close>, the matrix \<^verbatim>\<open>w\<close> itself, \<^verbatim>\<open>w.slice(i)\<close>.\<close>

definition v_elem :: "real list \<Rightarrow> view \<Rightarrow> nat \<Rightarrow> real" where
  "v_elem buf w i = buf ! (v_off w + i)"

definition v_mat :: "real list \<Rightarrow> view \<Rightarrow> mat" where
  "v_mat buf w = \<lparr>n_rows = v_rows w, n_cols = v_cols w,
                  mem = take (v_rows w * v_cols w) (drop (v_off w) buf)\<rparr>"

definition slice :: "real list \<Rightarrow> view \<Rightarrow> nat \<Rightarrow> mat" where
  "slice buf w i = \<lparr>n_rows = v_rows w, n_cols = v_cols w,
                    mem = take (v_rows w * v_cols w)
                            (drop (v_off w + v_rows w * v_cols w * i) buf)\<rparr>"

text \<open>
  Writing through a view goes to raw memory: \<^verbatim>\<open>w(i) = x\<close> and \<^verbatim>\<open>w.slice(i) = B\<close>.
  Outside the aliased buffer the source has no defined behaviour; the model stops.
\<close>

definition v_put :: "real list \<Rightarrow> view \<Rightarrow> nat \<Rightarrow> real \<Rightarrow> real list option" where
  "v_put buf w i x =
     (if v_off w + i < length buf then Some (buf[v_off w + i := x]) else None)"

definition put_slice :: "real list \<Rightarrow> view \<Rightarrow> nat \<Rightarrow> mat \<Rightarrow> real list option" where
  "put_slice buf w i B =
     (let p = v_off w + v_rows w * v_cols w * i
      in if p + length (mem B) \<le> length buf
         then Some (take p buf @ mem B @ drop (p + length (mem B)) buf)
         else None)"

subsection \<open>Control\<close>

text \<open>\<^verbatim>\<open>assert(b)\<close>\<close>

definition assert :: "bool \<Rightarrow> unit option" where
  "assert b = (if b then Some () else None)"

text \<open>\<^verbatim>\<open>for (i = 0; i < n; i++) body\<close> is \<open>for_loop [0..<n] body\<close>; a failing body stops it.\<close>

fun for_loop :: "nat list \<Rightarrow> (nat \<Rightarrow> 'a \<Rightarrow> 'a option) \<Rightarrow> 'a \<Rightarrow> 'a option" where
  "for_loop [] body a = Some a"
| "for_loop (i # is) body a = (case body i a of None \<Rightarrow> None | Some a' \<Rightarrow> for_loop is body a')"

subsection \<open>Collaborators declared outside the given sources\<close>

text \<open>
  Modelled from the spec: \<^verbatim>\<open>LogisticFunction::Fn\<close> is declared outside the given
  sources; the spec calls it \<open>logistic\<close>, the standard logistic function.
\<close>

definition LogisticFunction_Fn :: "real \<Rightarrow> real" where
  "LogisticFunction_Fn x = 1 / (1 + exp (- x))"

text \<open>
  Modelled from the spec: \<^verbatim>\<open>SoftplusFunction::Fn\<close> is declared outside the given
  sources; the spec calls it \<open>softplus\<close>, the standard \<open>log (1 + exp x)\<close>.
\<close>

definition SoftplusFunction_Fn :: "real \<Rightarrow> real" where
  "SoftplusFunction_Fn x = ln (1 + exp x)"

text \<open>
  Modelled from the spec: \<^verbatim>\<open>math::RandBernoulli\<close> and \<^verbatim>\<open>math::RandNormal\<close> are
  declared outside the given sources.  The operations take them as parameters; these
  two instances run the operations on concrete inputs.  The generator state is the
  list of the raw draws still to come: a Bernoulli draw with success probability \<open>p\<close>
  is \<open>1\<close> when the next uniform draw is below \<open>p\<close>, a Gaussian draw with mean \<open>m\<close> and
  variance \<open>v\<close> is \<open>m + sqrt v * z\<close> for the next standard normal draw \<open>z\<close>.
\<close>

fun scripted_RandBernoulli :: "real \<Rightarrow> real list \<Rightarrow> real \<times> real list" where
  "scripted_RandBernoulli p [] = (0, [])"
| "scripted_RandBernoulli p (u # g) = (if u < p then 1 else 0, g)"

fun scripted_RandNormal :: "real \<Rightarrow> real \<Rightarrow> real list \<Rightarrow> real \<times> real list" where
  "scripted_RandNormal m v [] = (m, [])"
| "scripted_RandNormal m v (z # g) = (m + sqrt v * z, g)"

subsection \<open>The policy object\<close>

record SpikeSlabRBMPolicy =
  visibleSize :: nat
  hiddenSize :: nat
  poolSize :: nat
  slabPenalty :: mat
  radius :: real
  parameter :: mat
  weight :: view
  spikeBias :: view
  visiblePenalty :: view
  spikeMean :: mat
  spikeSamples :: mat
  slabMean :: mat

text \<open>
  The constructor.  \<open>junk k\<close> is the content of the memory that the \<open>k\<close>-th
  \<^verbatim>\<open>set_size\<close> obtains.
\<close>

definition SpikeSlabRBMPolicy_init ::
  "nat \<Rightarrow> nat \<Rightarrow> nat \<Rightarrow> mat \<Rightarrow> real \<Rightarrow> (nat \<Rightarrow> nat \<Rightarrow> real) \<Rightarrow> SpikeSlabRBMPolicy option" where
  "SpikeSlabRBMPolicy_init V H P slabPenalty0 radius0 junk = do {
     let parameter0 = set_size empty_mat (V * H * P + V + H) 1 (junk 0);
     assert (n_rows slabPenalty0 = P);
     assert (n_cols slabPenalty0 = H);
     Some \<lparr>visibleSize = V, hiddenSize = H, poolSize = P,
           slabPenalty = slabPenalty0, radius = radius0,
           parameter = parameter0,
           weight = empty_view, spikeBias = empty_view, visiblePenalty = empty_view,
           spikeMean = set_size empty_mat H 1 (junk 1),
           spikeSamples = set_size empty_mat H 1 (junk 2),
           slabMean = set_size empty_mat P H (junk 3)\<rparr>
   }"

text \<open>\<^verbatim>\<open>Reset\<close>: the three views on \<^verbatim>\<open>parameter.memptr()\<close>, each placed after the one before.\<close>

definition Reset :: "SpikeSlabRBMPolicy \<Rightarrow> SpikeSlabRBMPolicy" where
  "Reset s =
     (let s1 = s\<lparr>weight := \<lparr>v_off = 0, v_rows = visibleSize s, v_cols = poolSize s,
                             v_slices = hiddenSize s\<rparr>\<rparr>;
          s2 = s1\<lparr>spikeBias := \<lparr>v_off = 0 + v_n_elem (weight s1), v_rows = hiddenSize s1,
                                 v_cols = 1, v_slices = 1\<rparr>\<rparr>;
          s3 = s2\<lparr>visiblePenalty :=
                    \<lparr>v_off = 0 + v_n_elem (weight s2) + v_n_elem (spikeBias s2),
                     v_rows = visibleSize s2, v_cols = 1, v_slices = 1\<rparr>\<rparr>
      in s3)"

text \<open>
  \<^verbatim>\<open>FreeEnergy\<close>.  The loops cannot stop the program; a zero slab precision makes
  the source compute with non-finite doubles, which the model does not cover.
\<close>

definition FreeEnergy :: "SpikeSlabRBMPolicy \<Rightarrow> mat \<Rightarrow> real option" where
  "FreeEnergy s input = do {
     assert (n_rows input = visibleSize s);
     assert (n_cols input = 1);
     let p = mem (parameter s);
     let freeEnergy = 0.5 * as_scalar (times_mat (times_mat (t input)
                        (diagmat (v_mat p (visiblePenalty s)))) input);
     let freeEnergy = fold (\<lambda>i freeEnergy.
           fold (\<lambda>k freeEnergy. freeEnergy - 0.5 * ln (2.0 * pi / m_at (slabPenalty s) k i))
             [0..<poolSize s] freeEnergy)
           [0..<hiddenSize s] freeEnergy;
     let freeEnergy = fold (\<lambda>i freeEnergy.
           let sum = fold (\<lambda>k sum. sum +
                   as_scalar (times_mat (t input) (col (slice p (weight s) i) k)) *
                   as_scalar (times_mat (t input) (col (slice p (weight s) i) k)) /
                   (2.0 * m_at (slabPenalty s) k i))
                 [0..<poolSize s] 0
           in freeEnergy - SoftplusFunction_Fn (v_elem p (spikeBias s) i + sum))
           [0..<hiddenSize s] freeEnergy;
     Some freeEnergy
   }"

text \<open>\<^verbatim>\<open>Evaluate\<close> ignores both arguments.\<close>

definition Evaluate :: "SpikeSlabRBMPolicy \<Rightarrow> mat \<Rightarrow> nat \<Rightarrow> real" where
  "Evaluate s predictors i = 0"

text \<open>\<^verbatim>\<open>SpikeMean(visible, spikeMean)\<close> returns the new content of its second argument.\<close>

definition SpikeMean :: "SpikeSlabRBMPolicy \<Rightarrow> mat \<Rightarrow> mat \<Rightarrow> mat option" where
  "SpikeMean s visible out = do {
     assert (n_rows visible = visibleSize s);
     assert (n_cols visible = 1);
     assert (n_rows out = hiddenSize s);
     assert (n_cols out = 1);
     let p = mem (parameter s);
     for_loop [0..<hiddenSize s] (\<lambda>i out. do {
         D \<leftarrow> diagmat_i (col (slabPenalty s) i);
         Some (put out i (LogisticFunction_Fn (0.5 * as_scalar
                 (times_mat (times_mat (times_mat (times_mat (t visible)
                    (slice p (weight s) i)) D) (t (slice p (weight s) i))) visible)
               + v_elem p (spikeBias s) i)))
       }) out
   }"

text \<open>\<^verbatim>\<open>SampleSpike(spikeMean, spike)\<close> returns the new content of \<^verbatim>\<open>spike\<close>.\<close>

definition SampleSpike ::
  "(real \<Rightarrow> 'g \<Rightarrow> real \<times> 'g) \<Rightarrow> SpikeSlabRBMPolicy \<Rightarrow> mat \<Rightarrow> mat \<Rightarrow> 'g \<Rightarrow> (mat \<times> 'g) option" where
  "SampleSpike rb s mean spike g = do {
     assert (n_rows mean = hiddenSize s);
     assert (n_cols mean = 1);
     assert (n_rows spike = hiddenSize s);
     assert (n_cols spike = 1);
     Some (fold (\<lambda>i (spike, g). let (x, g') = rb (elem mean i) g in (put spike i x, g'))
             [0..<hiddenSize s] (spike, g))
   }"

text \<open>\<^verbatim>\<open>SlabMean(visible, spike, slabMean)\<close> returns the new content of its third argument.\<close>

definition SlabMean :: "SpikeSlabRBMPolicy \<Rightarrow> mat \<Rightarrow> mat \<Rightarrow> mat \<Rightarrow> mat option" where
  "SlabMean s visible spike out = do {
     assert (n_rows visible = visibleSize s);
     assert (n_cols visible = 1);
     assert (n_rows spike = hiddenSize s);
     assert (n_cols spike = 1);
     assert (n_rows out = poolSize s);
     assert (n_cols out = hiddenSize s);
     assert (v_rows (weight s) = visibleSize s);
     assert (v_cols (weight s) = poolSize s);
     assert (n_rows (slabPenalty s) = poolSize s);
     assert (n_cols (slabPenalty s) = hiddenSize s);
     let p = mem (parameter s);
     for_loop [0..<hiddenSize s] (\<lambda>i out. do {
         D \<leftarrow> diagmat_i (col (slabPenalty s) i);
         Some (put_col out i
                 (times_mat (times_mat (scale_l (elem spike i) D) (t (slice p (weight s) i)))
                    visible))
       }) out
   }"

text \<open>
  \<^verbatim>\<open>VisibleMean(input, output)\<close> returns the new \<^verbatim>\<open>output\<close>.  \<^verbatim>\<open>spike\<close> and \<^verbatim>\<open>slab\<close>
  are read-only views on the memory of \<^verbatim>\<open>input\<close>.
\<close>

definition VisibleMean ::
  "SpikeSlabRBMPolicy \<Rightarrow> mat \<Rightarrow> mat \<Rightarrow> (nat \<Rightarrow> real) \<Rightarrow> mat option" where
  "VisibleMean s input output junk = do {
     assert (n_elem input = hiddenSize s + poolSize s * hiddenSize s);
     let output = set_size output (visibleSize s) 1 junk;
     let spike = \<lparr>n_rows = hiddenSize s, n_cols = 1, mem = take (hiddenSize s) (mem input)\<rparr>;
     let slab = \<lparr>n_rows = poolSize s, n_cols = hiddenSize s,
                 mem = take (poolSize s * hiddenSize s) (drop (hiddenSize s) (mem input))\<rparr>;
     let p = mem (parameter s);
     let output = fold (\<lambda>i output.
           plus_mat output (scale_r (times_mat (slice p (weight s) i) (col slab i)) (elem spike i)))
           [0..<hiddenSize s] output;
     D \<leftarrow> diagmat_i (v_mat p (visiblePenalty s));
     Some (times_mat D output)
   }"

text \<open>
  \<^verbatim>\<open>HiddenMean(input, output)\<close> returns the new \<^verbatim>\<open>output\<close>, the object and the
  generator.  \<^verbatim>\<open>spike\<close> and \<^verbatim>\<open>slab\<close> are views on the first \<open>H\<close> and the next
  \<open>P * H\<close> elements of \<^verbatim>\<open>output\<close>; what is written through them is written to
  \<^verbatim>\<open>output\<close>.
\<close>

definition HiddenMean ::
  "(real \<Rightarrow> 'g \<Rightarrow> real \<times> 'g) \<Rightarrow> SpikeSlabRBMPolicy \<Rightarrow> mat \<Rightarrow> mat \<Rightarrow> (nat \<Rightarrow> real) \<Rightarrow> 'g
     \<Rightarrow> (mat \<times> SpikeSlabRBMPolicy \<times> 'g) option" where
  "HiddenMean rb s input output junk g = do {
     assert (n_elem input = visibleSize s);
     let output = set_size output (hiddenSize s + poolSize s * hiddenSize s) 1 junk;
     let spike = \<lparr>n_rows = hiddenSize s, n_cols = 1, mem = take (hiddenSize s) (mem output)\<rparr>;
     let slab = \<lparr>n_rows = poolSize s, n_cols = hiddenSize s,
                 mem = take (poolSize s * hiddenSize s) (drop (hiddenSize s) (mem output))\<rparr>;
     spike \<leftarrow> SpikeMean s input spike;
     (samples, g) \<leftarrow> SampleSpike rb s spike (spikeSamples s) g;
     let s = s\<lparr>spikeSamples := samples\<rparr>;
     slab \<leftarrow> SlabMean s input (spikeSamples s) slab;
     Some (output\<lparr>mem := mem spike @ mem slab\<rparr>, s, g)
   }"

text \<open>
  \<^verbatim>\<open>PositivePhase(input, gradient)\<close> returns the object, the new \<^verbatim>\<open>gradient\<close> and the
  generator.  The three gradient objects are views on \<^verbatim>\<open>gradient.memptr()\<close>.
\<close>

definition PositivePhase ::
  "(real \<Rightarrow> 'g \<Rightarrow> real \<times> 'g) \<Rightarrow> SpikeSlabRBMPolicy \<Rightarrow> mat \<Rightarrow> mat \<Rightarrow> 'g
     \<Rightarrow> (SpikeSlabRBMPolicy \<times> mat \<times> 'g) option" where
  "PositivePhase rb s input gradient g = do {
     let weightGrad = \<lparr>v_off = 0, v_rows = visibleSize s, v_cols = poolSize s,
                       v_slices = hiddenSize s\<rparr>;
     let spikeBiasGrad = \<lparr>v_off = 0 + v_n_elem weightGrad, v_rows = hiddenSize s,
                          v_cols = 1, v_slices = 1\<rparr>;
     let visiblePenaltyGrad = \<lparr>v_off = 0 + v_n_elem weightGrad + v_n_elem spikeBiasGrad,
                               v_rows = visibleSize s, v_cols = 1, v_slices = 1\<rparr>;
     m \<leftarrow> SpikeMean s input (spikeMean s);
     let s = s\<lparr>spikeMean := m\<rparr>;
     (samples, g) \<leftarrow> SampleSpike rb s (spikeMean s) (spikeSamples s) g;
     let s = s\<lparr>spikeSamples := samples\<rparr>;
     sm \<leftarrow> SlabMean s input (spikeSamples s) (slabMean s);
     let s = s\<lparr>slabMean := sm\<rparr>;
     buf \<leftarrow> for_loop [0..<hiddenSize s] (\<lambda>i buf.
         put_slice buf weightGrad i
           (scale_r (times_mat input (t (col (slabMean s) i))) (elem (spikeMean s) i)))
       (mem gradient);
     buf \<leftarrow> for_loop [0..<hiddenSize s] (\<lambda>i buf.
         v_put buf spikeBiasGrad i (elem (spikeMean s) i)) buf;
     buf \<leftarrow> for_loop [0..<visibleSize s] (\<lambda>i buf.
         v_put buf visiblePenaltyGrad i (- 0.5 * elem input i * elem input i)) buf;
     Some (s, gradient\<lparr>mem := buf\<rparr>, g)
   }"

definition NegativePhase ::
  "(real \<Rightarrow> 'g \<Rightarrow> real \<times> 'g) \<Rightarrow> SpikeSlabRBMPolicy \<Rightarrow> mat \<Rightarrow> mat \<Rightarrow> 'g
     \<Rightarrow> (SpikeSlabRBMPolicy \<times> mat \<times> 'g) option" where
  "NegativePhase rb s negativeSamples gradient g = do {
     let weightGrad = \<lparr>v_off = 0, v_rows = visibleSize s, v_cols = poolSize s,
                       v_slices = hiddenSize s\<rparr>;
     let spikeBiasGrad = \<lparr>v_off = 0 + v_n_elem weightGrad, v_rows = hiddenSize s,
                          v_cols = 1, v_slices = 1\<rparr>;
     let visiblePenaltyGrad = \<lparr>v_off = 0 + v_n_elem weightGrad + v_n_elem spikeBiasGrad,
                               v_rows = visibleSize s, v_cols = 1, v_slices = 1\<rparr>;
     m \<leftarrow> SpikeMean s negativeSamples (spikeMean s);
     let s = s\<lparr>spikeMean := m\<rparr>;
     (samples, g) \<leftarrow> SampleSpike rb s (spikeMean s) (spikeSamples s) g;
     let s = s\<lparr>spikeSamples := samples\<rparr>;
     sm \<leftarrow> SlabMean s negativeSamples (spikeSamples s) (slabMean s);
     let s = s\<lparr>slabMean := sm\<rparr>;
     buf \<leftarrow> for_loop [0..<hiddenSize s] (\<lambda>i buf.
         put_slice buf weightGrad i
           (scale_r (times_mat negativeSamples (t (col (slabMean s) i))) (elem (spikeMean s) i)))
       (mem gradient);
     buf \<leftarrow> for_loop [0..<hiddenSize s] (\<lambda>i buf.
         v_put buf spikeBiasGrad i (elem (spikeMean s) i)) buf;
     buf \<leftarrow> for_loop [0..<visibleSize s] (\<lambda>i buf.
         v_put buf visiblePenaltyGrad i
           (- 0.5 * elem negativeSamples i * elem negativeSamples i)) buf;
     Some (s, gradient\<lparr>mem := buf\<rparr>, g)
   }"

text \<open>
  \<^verbatim>\<open>SampleVisible(input, output)\<close>.  \<open>draw_visible\<close> is the inner loop, one draw of the
  whole vector, in place: the mean of each draw is the element it overwrites.
  \<open>SampleVisible_trials n\<close> is the outer loop with \<open>n\<close> trials left.
\<close>

definition draw_visible ::
  "(real \<Rightarrow> real \<Rightarrow> 'g \<Rightarrow> real \<times> 'g) \<Rightarrow> SpikeSlabRBMPolicy \<Rightarrow> mat \<times> 'g \<Rightarrow> (mat \<times> 'g) option" where
  "draw_visible rn s =
     for_loop [0..<visibleSize s] (\<lambda>i (output, g). do {
         assert (v_elem (mem (parameter s)) (visiblePenalty s) i > 0);
         let (x, g') = rn (elem output i)
                          (1.0 / v_elem (mem (parameter s)) (visiblePenalty s) i) g;
         Some (put output i x, g')
       })"

fun SampleVisible_trials ::
  "(real \<Rightarrow> real \<Rightarrow> 'g \<Rightarrow> real \<times> 'g) \<Rightarrow> SpikeSlabRBMPolicy \<Rightarrow> nat \<Rightarrow> mat \<times> 'g \<Rightarrow> (mat \<times> 'g) option" where
  "SampleVisible_trials rn s 0 og = Some og"
| "SampleVisible_trials rn s (Suc n) og =
     (case draw_visible rn s og of
        None \<Rightarrow> None
      | Some (output, g) \<Rightarrow>
          if norm2 output < radius s then Some (output, g)
          else SampleVisible_trials rn s n (output, g))"

definition SampleVisible ::
  "(real \<Rightarrow> real \<Rightarrow> 'g \<Rightarrow> real \<times> 'g) \<Rightarrow> SpikeSlabRBMPolicy \<Rightarrow> mat \<Rightarrow> mat \<Rightarrow> (nat \<Rightarrow> real) \<Rightarrow> 'g
     \<Rightarrow> (mat \<times> 'g) option" where
  "SampleVisible rn s input output junk g = do {
     let numMaxTrials = 10;
     output \<leftarrow> VisibleMean s input output junk;
     SampleVisible_trials rn s numMaxTrials (output, g)
   }"

subsection \<open>A small object for running the operations\<close>

text \<open>
  Two visible units, two hidden units, pools of one slab unit, slab precision one,
  radius one, and the views as \<^verbatim>\<open>Reset\<close> places them on a parameter buffer \<open>p\<close> of
  eight values: four weights, two spike biases, two visible precisions.
\<close>

definition example_policy :: "real list \<Rightarrow> SpikeSlabRBMPolicy" where
  "example_policy p =
     \<lparr>visibleSize = 2, hiddenSize = 2, poolSize = 1,
      slabPenalty = \<lparr>n_rows = 1, n_cols = 2, mem = [1, 1]\<rparr>, radius = 1,
      parameter = \<lparr>n_rows = 8, n_cols = 1, mem = p\<rparr>,
      weight = \<lparr>v_off = 0, v_rows = 2, v_cols = 1, v_slices = 2\<rparr>,
      spikeBias = \<lparr>v_off = 4, v_rows = 2, v_cols = 1, v_slices = 1\<rparr>,
      visiblePenalty = \<lparr>v_off = 6, v_rows = 2, v_cols = 1, v_slices = 1\<rparr>,
      spikeMean = \<lparr>n_rows = 2, n_cols = 1, mem = [0, 0]\<rparr>,
      spikeSamples = \<lparr>n_rows = 2, n_cols = 1, mem = [0, 0]\<rparr>,
      slabMean = \<lparr>n_rows = 1, n_cols = 2, mem = [0, 0]\<rparr>\<rparr>"

section \<open>Facts about matrices, views and loops\<close>

lemma n_rows_mk_mat [simp]: "n_rows (mk_mat R C f) = R"
  by (simp add: mk_mat_def)

lemma n_cols_mk_mat [simp]: "n_cols (mk_mat R C f) = C"
  by (simp add: mk_mat_def)

lemma length_concat_cols: "length (concat (map (\<lambda>c. map (\<lambda>r. f r c) [0..<R]) [0..<C])) = R * C"
  by (induction C) simp_all

lemma index_in_range: "r < R \<Longrightarrow> c < C \<Longrightarrow> r + R * c < R * (C::nat)"
proof -
  assume a: "r < R" "c < C"
  then have "Suc c \<le> C" by simp
  then have "R * Suc c \<le> R * C" by (rule mult_le_mono2)
  with a show ?thesis by simp
qed

lemma nth_concat_cols:
  "r < R \<Longrightarrow> c < C \<Longrightarrow> concat (map (\<lambda>c. map (\<lambda>r. f r c) [0..<R]) [0..<C]) ! (r + R * c) = f r c"
proof (induction C)
  case 0
  then show ?case by simp
next
  case (Suc C)
  show ?case
  proof (cases "c < C")
    case True
    then have "r + R * c < R * C"
      by (simp add: index_in_range Suc.prems(1))
    with True Suc show ?thesis
      by (simp add: nth_append length_concat_cols)
  next
    case False
    with Suc.prems have "c = C" by simp
    with Suc.prems show ?thesis
      by (simp add: nth_append length_concat_cols)
  qed
qed

lemma length_mem_mk_mat [simp]: "length (mem (mk_mat R C f)) = R * C"
  by (simp add: mk_mat_def length_concat_cols)

lemma mat_ok_mk_mat [simp]: "mat_ok (mk_mat R C f)"
  by (simp add: mat_ok_def)

lemma m_at_mk_mat [simp]: "r < R \<Longrightarrow> c < C \<Longrightarrow> m_at (mk_mat R C f) r c = f r c"
  by (simp add: m_at_def mk_mat_def nth_concat_cols)

lemma m_at_times_mat:
  "r < n_rows A \<Longrightarrow> c < n_cols B \<Longrightarrow>
   m_at (times_mat A B) r c = sum_list (map (\<lambda>j. m_at A r j * m_at B j c) [0..<n_cols A])"
  by (simp add: times_mat_def)

lemma m_at_t: "r < n_cols A \<Longrightarrow> c < n_rows A \<Longrightarrow> m_at (t A) r c = m_at A c r"
  by (simp add: t_def)

lemma for_loop_append:
  "for_loop (xs @ ys) body a = (case for_loop xs body a of None \<Rightarrow> None | Some b \<Rightarrow> for_loop ys body b)"
  by (induction xs arbitrary: a) (simp_all split: option.splits)

lemma for_loop_partial:
  assumes "for_loop [0..<n] body a = Some y" and "I 0 a"
    and "\<And>i x x'. i < n \<Longrightarrow> I i x \<Longrightarrow> body i x = Some x' \<Longrightarrow> I (Suc i) x'"
  shows "I n y"
  using assms
proof (induction n arbitrary: y)
  case 0
  then show ?case by simp
next
  case (Suc n)
  from Suc.prems(1) obtain b where b: "for_loop [0..<n] body a = Some b" "body n b = Some y"
    by (auto simp: for_loop_append split: option.splits)
  have "I n b"
    using b(1) Suc.prems(2)
  proof (rule Suc.IH)
    fix i x x' assume "i < n" "I i x" "body i x = Some x'"
    then show "I (Suc i) x'" using Suc.prems(3) by simp
  qed
  then show ?case using b(2) Suc.prems(3) by blast
qed

lemma for_loop_total:
  assumes "I 0 a"
    and "\<And>i x. i < n \<Longrightarrow> I i x \<Longrightarrow> \<exists>x'. body i x = Some x' \<and> I (Suc i) x'"
  shows "\<exists>y. for_loop [0..<n] body a = Some y \<and> I n y"
  using assms
proof (induction n)
  case 0
  then show ?case by simp
next
  case (Suc n)
  have "\<exists>b. for_loop [0..<n] body a = Some b \<and> I n b"
    using Suc.prems(1)
  proof (rule Suc.IH)
    fix i x assume "i < n" "I i x"
    then show "\<exists>x'. body i x = Some x' \<and> I (Suc i) x'" using Suc.prems(2) by simp
  qed
  then obtain b where b: "for_loop [0..<n] body a = Some b" "I n b" by blast
  then obtain y where "body n b = Some y" "I (Suc n) y" using Suc.prems(2) by blast
  with b show ?case by (simp add: for_loop_append)
qed

lemma nth_block:
  "p + length ys \<le> length xs \<Longrightarrow> q < length xs \<Longrightarrow>
   (take p xs @ ys @ drop (p + length ys) xs) ! q =
     (if q < p then xs ! q else if q < p + length ys then ys ! (q - p) else xs ! q)"
  by (auto simp: nth_append min_def)

lemma block_index: "i' < i \<Longrightarrow> j < n \<Longrightarrow> n * i' + j < n * (i::nat)"
  using index_in_range [of j n i' i] by (simp add: add.commute)

lemma v_put_loop:
  assumes "for_loop [0..<n] (\<lambda>i buf. v_put buf w i (f i)) buf = Some buf'"
  shows "length buf' = length buf \<and> (\<forall>i<n. buf' ! (v_off w + i) = f i) \<and>
         (\<forall>q. q < v_off w \<or> v_off w + n \<le> q \<longrightarrow> buf' ! q = buf ! q)"
proof (rule for_loop_partial [OF assms,
    where I = "\<lambda>j b. length b = length buf \<and> (\<forall>i<j. b ! (v_off w + i) = f i) \<and>
         (\<forall>q. q < v_off w \<or> v_off w + n \<le> q \<longrightarrow> b ! q = buf ! q)"])
  show "length buf = length buf \<and> (\<forall>i<0. buf ! (v_off w + i) = f i) \<and>
         (\<forall>q. q < v_off w \<or> v_off w + n \<le> q \<longrightarrow> buf ! q = buf ! q)" by simp
next
  fix i x x'
  assume i: "i < n"
    and I: "length x = length buf \<and> (\<forall>i'<i. x ! (v_off w + i') = f i') \<and>
         (\<forall>q. q < v_off w \<or> v_off w + n \<le> q \<longrightarrow> x ! q = buf ! q)"
    and b: "v_put x w i (f i) = Some x'"
  from b have x': "x' = x[v_off w + i := f i]" and r: "v_off w + i < length x"
    by (auto simp: v_put_def split: if_splits)
  show "length x' = length buf \<and> (\<forall>i'<Suc i. x' ! (v_off w + i') = f i') \<and>
         (\<forall>q. q < v_off w \<or> v_off w + n \<le> q \<longrightarrow> x' ! q = buf ! q)"
    using I i r by (auto simp: x' nth_list_update less_Suc_eq)
qed

lemma put_slice_loop:
  assumes "for_loop [0..<n] (\<lambda>i buf. put_slice buf w i (B i)) buf = Some buf'"
    and len: "\<And>i. i < n \<Longrightarrow> length (mem (B i)) = v_rows w * v_cols w"
  shows "length buf' = length buf \<and>
         (\<forall>i<n. \<forall>j<v_rows w * v_cols w. buf' ! (v_off w + v_rows w * v_cols w * i + j) = mem (B i) ! j) \<and>
         (\<forall>q<length buf. q < v_off w \<or> v_off w + v_rows w * v_cols w * n \<le> q \<longrightarrow> buf' ! q = buf ! q)"
proof -
  define N where "N = v_rows w * v_cols w"
  define I where "I = (\<lambda>k b. length b = length buf \<and>
         (\<forall>i<k. \<forall>j<N. b ! (v_off w + N * i + j) = mem (B i) ! j) \<and>
         (\<forall>q<length buf. q < v_off w \<or> v_off w + N * n \<le> q \<longrightarrow> b ! q = buf ! q))"
  have "I n buf'"
  proof (rule for_loop_partial [OF assms(1)])
    show "I 0 buf" by (simp add: I_def)
  next
    fix i x x'
    assume i: "i < n" and I: "I i x" and b: "put_slice x w i (B i) = Some x'"
    have lB: "length (mem (B i)) = N" using len [OF i] by (simp add: N_def)
    from b have x': "x' = take (v_off w + N * i) x @ mem (B i) @ drop (v_off w + N * i + length (mem (B i))) x"
      and r: "v_off w + N * i + length (mem (B i)) \<le> length x"
      by (auto simp: put_slice_def Let_def N_def split: if_splits)
    have nth: "\<And>q. q < length x \<Longrightarrow> x' ! q = (if q < v_off w + N * i then x ! q
         else if q < v_off w + N * i + N then mem (B i) ! (q - (v_off w + N * i)) else x ! q)"
      unfolding x' using nth_block [OF r] lB by simp
    have lx: "length x = length buf" using I by (simp add: I_def)
    have "N * Suc i \<le> N * n" using i by (intro mult_le_mono2) simp
    then have top: "N * i + N \<le> N * n" by simp
    have "length x' = length buf" unfolding x' using r I by (simp add: I_def)
    moreover have "\<forall>i'<Suc i. \<forall>j<N. x' ! (v_off w + N * i' + j) = mem (B i') ! j"
    proof (intro allI impI)
      fix i' j assume i': "i' < Suc i" and j: "j < N"
      show "x' ! (v_off w + N * i' + j) = mem (B i') ! j"
      proof (cases "i' = i")
        case True
        then show ?thesis using j r lB by (simp add: nth)
      next
        case False
        with i' have lt: "i' < i" by simp
        then have "N * i' + j < N * i" using j by (rule block_index)
        then show ?thesis using I lt j r by (simp add: nth I_def)
      qed
    qed
    moreover have "\<forall>q<length buf. q < v_off w \<or> v_off w + N * n \<le> q \<longrightarrow> x' ! q = buf ! q"
      using I top lx by (auto simp: nth I_def)
    ultimately show "I (Suc i) x'" by (simp add: I_def)
  qed
  then show ?thesis by (simp add: I_def N_def)
qed

section \<open>The operations that do not depend on the data\<close>

text \<open>
  C9: \<^verbatim>\<open>Evaluate\<close> returns 0 for every predictors matrix and every index, whatever
  the parameters and the state of the object are.
\<close>

theorem Evaluate_returns_zero:
  "Evaluate s predictors i = 0 \<and> Evaluate s predictors i = Evaluate s' predictors' i'"
  by (simp add: Evaluate_def)

text \<open>
  C7: \<^verbatim>\<open>PositivePhase\<close> and \<^verbatim>\<open>NegativePhase\<close> are the same procedure: on the same
  visible vector, object, gradient buffer and generator they stop together or return
  the same object, the same gradient buffer and the same generator.
\<close>

theorem PositivePhase_is_NegativePhase:
  "PositivePhase rb s visible gradient g = NegativePhase rb s visible gradient g"
  by (simp add: PositivePhase_def NegativePhase_def)

section \<open>Slab mean\<close>

lemma bind_assert [simp]: "Option.bind (assert b) f = (if b then f () else None)"
  by (simp add: assert_def)

lemma diagmat_i_shape:
  "diagmat_i v = Some D \<Longrightarrow> n_rows D = n_elem v \<and> n_cols D = n_elem v \<and> mat_ok D"
  by (auto simp: diagmat_i_def split: if_splits)

lemma n_rows_times_mat [simp]: "n_rows (times_mat A B) = n_rows A"
  by (simp add: times_mat_def)

lemma n_cols_times_mat [simp]: "n_cols (times_mat A B) = n_cols B"
  by (simp add: times_mat_def)

lemma length_mem_times_mat [simp]: "length (mem (times_mat A B)) = n_rows A * n_cols B"
  by (simp add: times_mat_def)

lemma shape_scale_l [simp]:
  "n_rows (scale_l x A) = n_rows A" "n_cols (scale_l x A) = n_cols A"
  "length (mem (scale_l x A)) = length (mem A)"
  by (simp_all add: scale_l_def)

lemma shape_scale_r [simp]:
  "n_rows (scale_r A x) = n_rows A" "n_cols (scale_r A x) = n_cols A"
  "length (mem (scale_r A x)) = length (mem A)"
  by (simp_all add: scale_r_def)

lemma shape_t [simp]: "n_rows (t A) = n_cols A" "n_cols (t A) = n_rows A"
  by (simp_all add: t_def)

lemma shape_col [simp]: "n_rows (col A c) = n_rows A" "n_cols (col A c) = 1"
  by (simp_all add: col_def)

lemma shape_slice [simp]: "n_rows (slice buf w i) = v_rows w" "n_cols (slice buf w i) = v_cols w"
  by (simp_all add: slice_def)

lemma n_elem_col [simp]: "n_elem (col A c) = n_rows A"
  by (simp add: n_elem_def)

text \<open>The loop of SlabMean writes column after column.\<close>

lemma put_col_loop:
  fixes out out' :: mat
  assumes run: "for_loop [0..<n] (\<lambda>i out. Option.bind (d i) (\<lambda>D. Some (put_col out i (F i D)))) out = Some out'"
    and len: "\<And>i D. i < n \<Longrightarrow> d i = Some D \<Longrightarrow> length (mem (F i D)) = n_rows out"
    and ok: "n_rows out * n \<le> length (mem out)"
  shows "n_rows out' = n_rows out \<and> n_cols out' = n_cols out \<and> length (mem out') = length (mem out) \<and>
         (\<forall>i<n. \<exists>D. d i = Some D \<and> (\<forall>k<n_rows out. mem out' ! (k + n_rows out * i) = mem (F i D) ! k))"
proof -
  define P where "P = n_rows out"
  define I where "I = (\<lambda>j (x::mat). n_rows x = P \<and> n_cols x = n_cols out \<and> length (mem x) = length (mem out) \<and>
         (\<forall>i<j. \<exists>D. d i = Some D \<and> (\<forall>k<P. mem x ! (k + P * i) = mem (F i D) ! k)))"
  have "I n out'"
  proof (rule for_loop_partial [OF run])
    show "I 0 out" by (simp add: I_def P_def)
  next
    fix i x x'
    assume i: "i < n" and I: "I i x"
      and b: "Option.bind (d i) (\<lambda>D. Some (put_col x i (F i D))) = Some x'"
    from b obtain D where D: "d i = Some D" and x': "x' = put_col x i (F i D)"
      by (auto simp: bind_eq_Some_conv)
    have lF: "length (mem (F i D)) = P" using len [OF i D] by (simp add: P_def)
    have "P * Suc i \<le> P * n" using i by (intro mult_le_mono2) simp
    then have r: "P * i + length (mem (F i D)) \<le> length (mem x)"
      using ok I lF by (simp add: I_def P_def)
    have rx: "n_rows x = P" using I by (simp add: I_def)
    have mem': "mem x' = take (P * i) (mem x) @ mem (F i D) @ drop (P * i + length (mem (F i D))) (mem x)"
      by (simp add: x' put_col_def rx lF)
    have nth: "\<And>q. q < length (mem x) \<Longrightarrow> mem x' ! q = (if q < P * i then mem x ! q
         else if q < P * i + P then mem (F i D) ! (q - P * i) else mem x ! q)"
      unfolding mem' using nth_block [OF r] lF by simp
    have "\<forall>i'<Suc i. \<exists>D. d i' = Some D \<and> (\<forall>k<P. mem x' ! (k + P * i') = mem (F i' D) ! k)"
    proof (intro allI impI)
      fix i' assume i': "i' < Suc i"
      show "\<exists>D. d i' = Some D \<and> (\<forall>k<P. mem x' ! (k + P * i') = mem (F i' D) ! k)"
      proof (cases "i' = i")
        case True
        have "\<forall>k<P. mem x' ! (k + P * i) = mem (F i D) ! k"
          using r lF by (simp add: nth)
        with True D show ?thesis by blast
      next
        case False
        with i' have lt: "i' < i" by simp
        then obtain D' where D': "d i' = Some D'" "\<forall>k<P. mem x ! (k + P * i') = mem (F i' D') ! k"
          using I by (auto simp: I_def)
        have "\<forall>k<P. mem x' ! (k + P * i') = mem (F i' D') ! k"
        proof (intro allI impI)
          fix k assume k: "k < P"
          have "P * i' + k < P * i" using lt k by (rule block_index)
          then show "mem x' ! (k + P * i') = mem (F i' D') ! k"
            using D'(2) k r by (simp add: nth add.commute)
        qed
        with D'(1) show ?thesis by blast
      qed
    qed
    moreover have "n_rows x' = P \<and> n_cols x' = n_cols out \<and> length (mem x') = length (mem out)"
      using I r unfolding mem' by (simp add: I_def x' put_col_def)
    ultimately show "I (Suc i) x'" by (simp add: I_def)
  qed
  then show ?thesis by (simp add: I_def P_def)
qed

lemma SlabMean_result:
  assumes run: "SlabMean s visible spike out = Some out'" and ok: "mat_ok out"
  shows "n_rows out' = poolSize s \<and> n_cols out' = hiddenSize s \<and> mat_ok out' \<and>
         (\<forall>i<hiddenSize s. \<exists>D. diagmat_i (col (slabPenalty s) i) = Some D \<and>
            (\<forall>k<poolSize s. m_at out' k i =
               m_at (times_mat (times_mat (scale_l (elem spike i) D)
                 (t (slice (mem (parameter s)) (weight s) i))) visible) k 0))"
proof -
  from run have a: "n_rows out = poolSize s" "n_cols out = hiddenSize s"
      "n_rows (slabPenalty s) = poolSize s" "n_cols visible = 1"
    and loop: "for_loop [0..<hiddenSize s] (\<lambda>i out. Option.bind (diagmat_i (col (slabPenalty s) i))
          (\<lambda>D. Some (put_col out i (times_mat (times_mat (scale_l (elem spike i) D)
                 (t (slice (mem (parameter s)) (weight s) i))) visible)))) out = Some out'"
    by (simp_all add: SlabMean_def Let_def split: if_splits)
  have "n_rows out' = n_rows out \<and> n_cols out' = n_cols out \<and> length (mem out') = length (mem out) \<and>
         (\<forall>i<hiddenSize s. \<exists>D. diagmat_i (col (slabPenalty s) i) = Some D \<and>
           (\<forall>k<n_rows out. mem out' ! (k + n_rows out * i) =
              mem (times_mat (times_mat (scale_l (elem spike i) D)
                 (t (slice (mem (parameter s)) (weight s) i))) visible) ! k))"
  proof (rule put_col_loop [OF loop])
    fix i D assume "i < hiddenSize s" "diagmat_i (col (slabPenalty s) i) = Some D"
    then show "length (mem (times_mat (times_mat (scale_l (elem spike i) D)
                 (t (slice (mem (parameter s)) (weight s) i))) visible)) = n_rows out"
      using a diagmat_i_shape [of "col (slabPenalty s) i" D] by simp
  next
    show "n_rows out * hiddenSize s \<le> length (mem out)"
      using ok a by (simp add: mat_ok_def)
  qed
  then show ?thesis using a ok by (simp add: mat_ok_def m_at_def)
qed

lemma sum_list_zero: "(\<And>x. x \<in> set xs \<Longrightarrow> f x = (0::real)) \<Longrightarrow> sum_list (map f xs) = 0"
  by (induction xs) simp_all

lemma m_at_scale_l:
  "r < n_rows A \<Longrightarrow> c < n_cols A \<Longrightarrow> mat_ok A \<Longrightarrow> m_at (scale_l x A) r c = x * m_at A r c"
  by (simp add: m_at_def scale_l_def mat_ok_def index_in_range)

lemma upt_2: "[0..<2] = [0, 1]"
  by (simp add: upt_rec)

text \<open>The small object is what the constructor and \<^verbatim>\<open>Reset\<close> build, with \<open>p\<close> in the parameter buffer.\<close>

lemma example_policy_constructed:
  "\<exists>s0. SpikeSlabRBMPolicy_init 2 2 1 \<lparr>n_rows = 1, n_cols = 2, mem = [1, 1]\<rparr> 1 (\<lambda>k i. 0) = Some s0 \<and>
        example_policy p = (Reset s0)\<lparr>parameter := \<lparr>n_rows = 8, n_cols = 1, mem = p\<rparr>\<rparr>"
  by (simp add: SpikeSlabRBMPolicy_init_def Reset_def example_policy_def set_size_def empty_mat_def
      empty_view_def v_n_elem_def upt_2)

lemma SlabMean_zero_entry:
  assumes run: "SlabMean s visible spike out = Some out'" and ok: "mat_ok out"
    and i: "i < hiddenSize s" and z: "elem spike i = 0" and k: "k < poolSize s"
  shows "m_at out' k i = 0"
proof -
  note res = SlabMean_result [OF run ok]
  from run have a: "n_rows (slabPenalty s) = poolSize s" "n_cols visible = 1"
    by (simp_all add: SlabMean_def Let_def split: if_splits)
  from res i obtain D where D: "diagmat_i (col (slabPenalty s) i) = Some D"
    and eq: "\<forall>k<poolSize s. m_at out' k i =
               m_at (times_mat (times_mat (scale_l (elem spike i) D)
                 (t (slice (mem (parameter s)) (weight s) i))) visible) k 0"
    by blast
  have shD: "n_rows D = poolSize s" "n_cols D = poolSize s" "mat_ok D"
    using diagmat_i_shape [OF D] a by simp_all
  let ?W = "t (slice (mem (parameter s)) (weight s) i)"
  have inner: "m_at (times_mat (scale_l 0 D) ?W) k j = 0" if j: "j < n_cols ?W" for j
  proof -
    have "m_at (times_mat (scale_l 0 D) ?W) k j =
          sum_list (map (\<lambda>l. m_at (scale_l 0 D) k l * m_at ?W l j) [0..<n_cols (scale_l 0 D)])"
      using k j shD by (intro m_at_times_mat) simp_all
    also have "\<dots> = 0"
      by (rule sum_list_zero) (use k shD in \<open>simp add: m_at_scale_l\<close>)
    finally show ?thesis .
  qed
  let ?A = "times_mat (scale_l 0 D) ?W"
  have "m_at (times_mat ?A visible) k 0 = sum_list (map (\<lambda>j. m_at ?A k j * m_at visible j 0) [0..<n_cols ?A])"
    using k shD a by (intro m_at_times_mat) simp_all
  also have "\<dots> = 0"
    by (rule sum_list_zero) (use inner in simp)
  finally have "m_at (times_mat (times_mat (scale_l 0 D) ?W) visible) k 0 = 0" .
  then show ?thesis using eq k z by simp
qed

text \<open>
  C8: for every visible vector and every spike vector, column \<open>i\<close> of the matrix that
  \<^verbatim>\<open>SlabMean\<close> produces is the zero vector whenever \<open>spike(i)\<close> is 0.
\<close>

theorem SlabMean_column_zero:
  assumes run: "SlabMean s visible spike out = Some out'" and ok: "mat_ok out"
    and i: "i < hiddenSize s" and z: "elem spike i = 0"
  shows "col out' i = \<lparr>n_rows = poolSize s, n_cols = 1, mem = replicate (poolSize s) 0\<rparr>"
proof -
  note res = SlabMean_result [OF run ok]
  have zero: "m_at out' k i = 0" if k: "k < poolSize s" for k
    using run ok i z k by (rule SlabMean_zero_entry)
  have len: "length (mem out') = poolSize s * hiddenSize s" and rows: "n_rows out' = poolSize s"
    using res by (simp_all add: mat_ok_def)
  have "poolSize s * Suc i \<le> poolSize s * hiddenSize s"
    using i by (intro mult_le_mono2) simp
  then have fit: "poolSize s * i + poolSize s \<le> length (mem out')"
    using len by simp
  have "take (poolSize s) (drop (poolSize s * i) (mem out')) = replicate (poolSize s) 0"
  proof (rule nth_equalityI)
    show "length (take (poolSize s) (drop (poolSize s * i) (mem out'))) = length (replicate (poolSize s) (0::real))"
      using fit by simp
  next
    fix k assume "k < length (take (poolSize s) (drop (poolSize s * i) (mem out')))"
    then have k: "k < poolSize s" by simp
    then show "take (poolSize s) (drop (poolSize s * i) (mem out')) ! k = replicate (poolSize s) 0 ! k"
      using zero [OF k] fit rows by (simp add: m_at_def add.commute)
  qed
  then show ?thesis by (simp add: col_def rows)
qed

theorem SlabMean_column_zero_witness:
  "SlabMean (example_policy [1, 2, 3, 4, 0, 0, 1, 1]) \<lparr>n_rows = 2, n_cols = 1, mem = [1, 1]\<rparr>
      \<lparr>n_rows = 2, n_cols = 1, mem = [0, 1]\<rparr> \<lparr>n_rows = 1, n_cols = 2, mem = [5, 5]\<rparr>
     = Some \<lparr>n_rows = 1, n_cols = 2, mem = [0, 7]\<rparr> \<and>
   col \<lparr>n_rows = 1, n_cols = 2, mem = [0, 7]\<rparr> 0 = \<lparr>n_rows = 1, n_cols = 1, mem = [0]\<rparr>"
proof -
  have run: "SlabMean (example_policy [1, 2, 3, 4, 0, 0, 1, 1]) \<lparr>n_rows = 2, n_cols = 1, mem = [1, 1]\<rparr>
      \<lparr>n_rows = 2, n_cols = 1, mem = [0, 1]\<rparr> \<lparr>n_rows = 1, n_cols = 2, mem = [5, 5]\<rparr>
     = Some \<lparr>n_rows = 1, n_cols = 2, mem = [0, 7]\<rparr>"
    by (simp add: SlabMean_def example_policy_def upt_2 diagmat_i_def col_def put_col_def
        times_mat_def mk_mat_def scale_l_def t_def slice_def m_at_def elem_def n_elem_def)
  from SlabMean_column_zero [OF run, of 0] run show ?thesis
    by (simp add: mat_ok_def example_policy_def elem_def)
qed

section \<open>Visible mean and free energy on concrete objects\<close>

lemma upt_3: "[0..<3] = [0, 1, 2]"
  by (simp add: upt_rec)

lemma upt_4: "[0..<4] = [0, 1, 2, 3]"
  by (simp add: upt_rec)

text \<open>
  C1: \<^verbatim>\<open>VisibleMean\<close> is to return \<open>diag(visiblePenalty)\<^sup>-\<^sup>1 \<cdot> \<Sum>\<^sub>i weight[i] \<cdot> slab[:,i] \<cdot> spike[i]\<close>
  whatever the output buffer held before.  The source sizes the buffer without clearing
  it and then accumulates into it.  On the object with weights \<open>(1, 2)\<close> and \<open>(3, 4)\<close>,
  visible precisions \<open>(1, 1)\<close>, spikes \<open>(1, 1)\<close> and slabs \<open>(1, 1)\<close> the formula gives
  \<open>(4, 6)\<close>; a buffer that already held \<open>(5, 5)\<close> comes back as \<open>(9, 11)\<close>.
\<close>

theorem VisibleMean_adds_to_prior_output:
  "VisibleMean (example_policy [1, 2, 3, 4, 0, 0, 1, 1]) \<lparr>n_rows = 4, n_cols = 1, mem = [1, 1, 1, 1]\<rparr>
      \<lparr>n_rows = 2, n_cols = 1, mem = [0, 0]\<rparr> junk = Some \<lparr>n_rows = 2, n_cols = 1, mem = [4, 6]\<rparr> \<and>
   VisibleMean (example_policy [1, 2, 3, 4, 0, 0, 1, 1]) \<lparr>n_rows = 4, n_cols = 1, mem = [1, 1, 1, 1]\<rparr>
      \<lparr>n_rows = 2, n_cols = 1, mem = [5, 5]\<rparr> junk = Some \<lparr>n_rows = 2, n_cols = 1, mem = [9, 11]\<rparr>"
  by (simp add: VisibleMean_def example_policy_def upt_2 set_size_def diagmat_i_def col_def
      plus_mat_def scale_r_def times_mat_def mk_mat_def slice_def v_mat_def m_at_def elem_def n_elem_def)

text \<open>
  C5: three visible units, one hidden unit, one slab unit, slab precision \<open>[[1]]\<close>,
  radius 10.  After construction and \<^verbatim>\<open>Reset\<close>, for every content
  \<open>(w0, w1, w2, b, l0, l1, l2)\<close> of the parameter buffer, where \<open>b\<close> is \<open>spikeBias(0)\<close>,
  the free energy of the visible vector \<open>(0, 0, 0)\<close> is \<open>- 0.5 \<cdot> log (2\<pi>) - softplus b\<close>.
\<close>

theorem FreeEnergy_scenario:
  "\<exists>s0. SpikeSlabRBMPolicy_init 3 1 1 \<lparr>n_rows = 1, n_cols = 1, mem = [1]\<rparr> 10 junk = Some s0 \<and>
     v_elem [w0, w1, w2, b, l0, l1, l2] (spikeBias (Reset s0)) 0 = b \<and>
     FreeEnergy ((Reset s0)\<lparr>parameter := \<lparr>n_rows = 7, n_cols = 1, mem = [w0, w1, w2, b, l0, l1, l2]\<rparr>\<rparr>)
       \<lparr>n_rows = 3, n_cols = 1, mem = [0, 0, 0]\<rparr>
     = Some (- 0.5 * ln (2 * pi) - SoftplusFunction_Fn b)"
  by (simp add: SpikeSlabRBMPolicy_init_def Reset_def FreeEnergy_def upt_3 set_size_def empty_mat_def
      empty_view_def v_n_elem_def v_elem_def diagmat_def col_def as_scalar_def t_def
      times_mat_def mk_mat_def slice_def v_mat_def m_at_def elem_def n_elem_def)

section \<open>The two gradient phases\<close>

lemma shape_put [simp]:
  "n_rows (put A i x) = n_rows A" "n_cols (put A i x) = n_cols A"
  "length (mem (put A i x)) = length (mem A)"
  by (simp_all add: put_def)

lemma mat_ok_put [simp]: "mat_ok (put A i x) = mat_ok A"
  by (simp add: mat_ok_def)

lemma elem_put: "i < length (mem A) \<Longrightarrow> elem (put A i x) j = (if j = i then x else elem A j)"
  by (simp add: elem_def put_def nth_list_update)

text \<open>The loop of SpikeMean writes element after element.\<close>

lemma put_loop:
  fixes out out' :: mat
  assumes run: "for_loop [0..<n] (\<lambda>i out. Option.bind (d i) (\<lambda>D. Some (put out i (f i D)))) out = Some out'"
    and ok: "n \<le> length (mem out)"
  shows "n_rows out' = n_rows out \<and> n_cols out' = n_cols out \<and> length (mem out') = length (mem out) \<and>
         (\<forall>i<n. \<exists>D. d i = Some D \<and> elem out' i = f i D)"
proof -
  define I where "I = (\<lambda>j (x::mat). n_rows x = n_rows out \<and> n_cols x = n_cols out \<and>
         length (mem x) = length (mem out) \<and> (\<forall>i<j. \<exists>D. d i = Some D \<and> elem x i = f i D))"
  have "I n out'"
  proof (rule for_loop_partial [OF run])
    show "I 0 out" by (simp add: I_def)
  next
    fix i x x'
    assume i: "i < n" and I: "I i x"
      and b: "Option.bind (d i) (\<lambda>D. Some (put x i (f i D))) = Some x'"
    from b obtain D where D: "d i = Some D" and x': "x' = put x i (f i D)"
      by (auto simp: bind_eq_Some_conv)
    have r: "i < length (mem x)" using i ok I by (simp add: I_def)
    show "I (Suc i) x'"
      using I D r by (auto simp: I_def x' elem_put less_Suc_eq)
  qed
  then show ?thesis by (simp add: I_def)
qed

lemma SpikeMean_result:
  assumes run: "SpikeMean s visible out = Some out'" and ok: "mat_ok out"
  shows "n_rows out' = hiddenSize s \<and> n_cols out' = 1 \<and> mat_ok out' \<and>
         n_rows visible = visibleSize s \<and> n_cols visible = 1 \<and>
         (\<forall>i<hiddenSize s. \<exists>D. diagmat_i (col (slabPenalty s) i) = Some D \<and>
            elem out' i = LogisticFunction_Fn (0.5 * as_scalar
                 (times_mat (times_mat (times_mat (times_mat (t visible)
                    (slice (mem (parameter s)) (weight s) i)) D)
                    (t (slice (mem (parameter s)) (weight s) i))) visible)
               + v_elem (mem (parameter s)) (spikeBias s) i))"
proof -
  from run have a: "n_rows out = hiddenSize s" "n_cols out = 1"
      "n_rows visible = visibleSize s" "n_cols visible = 1"
    and loop: "for_loop [0..<hiddenSize s] (\<lambda>i out. Option.bind (diagmat_i (col (slabPenalty s) i))
          (\<lambda>D. Some (put out i (LogisticFunction_Fn (0.5 * as_scalar
                 (times_mat (times_mat (times_mat (times_mat (t visible)
                    (slice (mem (parameter s)) (weight s) i)) D)
                    (t (slice (mem (parameter s)) (weight s) i))) visible)
               + v_elem (mem (parameter s)) (spikeBias s) i))))) out = Some out'"
    by (simp_all add: SpikeMean_def Let_def split: if_splits)
  have "hiddenSize s \<le> length (mem out)" using ok a by (simp add: mat_ok_def)
  from put_loop [OF loop this] show ?thesis using a ok by (simp add: mat_ok_def)
qed

text \<open>The loop of SampleSpike keeps the shape of the buffer it fills.\<close>

lemma SampleSpike_loop_shape:
  fixes spike :: mat
  shows "n_rows (fst (fold (\<lambda>i (spike, g). let (x, g') = rb (elem mean i) g in (put spike i x, g'))
             [0..<n] (spike, g))) = n_rows spike \<and>
         n_cols (fst (fold (\<lambda>i (spike, g). let (x, g') = rb (elem mean i) g in (put spike i x, g'))
             [0..<n] (spike, g))) = n_cols spike \<and>
         length (mem (fst (fold (\<lambda>i (spike, g). let (x, g') = rb (elem mean i) g in (put spike i x, g'))
             [0..<n] (spike, g)))) = length (mem spike)"
  by (induction n) (simp_all add: split_beta Let_def)

lemma SampleSpike_result:
  assumes "SampleSpike rb s mean spike g = Some (spike', g')"
  shows "n_rows spike' = hiddenSize s \<and> n_cols spike' = 1 \<and> length (mem spike') = length (mem spike)"
proof -
  from assms have a: "n_rows spike = hiddenSize s" "n_cols spike = 1"
    and f: "fold (\<lambda>i (spike, g). let (x, g') = rb (elem mean i) g in (put spike i x, g'))
             [0..<hiddenSize s] (spike, g) = (spike', g')"
    by (simp_all add: SampleSpike_def split: if_splits)
  from SampleSpike_loop_shape [of rb mean "hiddenSize s" spike g] show ?thesis
    unfolding f using a by simp
qed

text \<open>The operations read the dimensions, the parameters and the views, not the scratch buffers.\<close>

lemma scratch_irrelevant [simp]:
  "SpikeMean (s\<lparr>spikeMean := a\<rparr>) = SpikeMean s"
  "SpikeMean (s\<lparr>spikeSamples := b\<rparr>) = SpikeMean s"
  "SlabMean (s\<lparr>spikeMean := a\<rparr>) = SlabMean s"
  "SlabMean (s\<lparr>spikeSamples := b\<rparr>) = SlabMean s"
  "SampleSpike rb (s\<lparr>spikeMean := a\<rparr>) = SampleSpike rb s"
  "SampleSpike rb (s\<lparr>spikeSamples := b\<rparr>) = SampleSpike rb s"
  by (simp_all add: SpikeMean_def SlabMean_def SampleSpike_def fun_eq_iff)

lemma PositivePhase_alt:
  "PositivePhase rb s input gradient g =
   Option.bind (SpikeMean s input (spikeMean s)) (\<lambda>m.
   Option.bind (SampleSpike rb s m (spikeSamples s) g) (\<lambda>sg.
   Option.bind (SlabMean s input (fst sg) (slabMean s)) (\<lambda>sm.
   Option.bind (for_loop [0..<hiddenSize s] (\<lambda>i buf.
         put_slice buf \<lparr>v_off = 0, v_rows = visibleSize s, v_cols = poolSize s, v_slices = hiddenSize s\<rparr> i
           (scale_r (times_mat input (t (col sm i))) (elem m i)))
       (mem gradient)) (\<lambda>buf1.
   Option.bind (for_loop [0..<hiddenSize s] (\<lambda>i buf.
         v_put buf \<lparr>v_off = visibleSize s * poolSize s * hiddenSize s, v_rows = hiddenSize s,
                    v_cols = 1, v_slices = 1\<rparr> i (elem m i)) buf1) (\<lambda>buf2.
   Option.bind (for_loop [0..<visibleSize s] (\<lambda>i buf.
         v_put buf \<lparr>v_off = visibleSize s * poolSize s * hiddenSize s + hiddenSize s,
                    v_rows = visibleSize s, v_cols = 1, v_slices = 1\<rparr> i
           (- 0.5 * elem input i * elem input i)) buf2) (\<lambda>buf3.
     Some (s\<lparr>spikeMean := m, spikeSamples := fst sg, slabMean := sm\<rparr>, gradient\<lparr>mem := buf3\<rparr>, snd sg)))))))"
  by (simp add: PositivePhase_def Let_def v_n_elem_def case_prod_unfold)

lemma PositivePhase_steps:
  assumes run: "PositivePhase rb s input gradient g = Some (s', gradient', g')"
  obtains m samples sm buf1 buf2 where
    "SpikeMean s input (spikeMean s) = Some m"
    "SampleSpike rb s m (spikeSamples s) g = Some (samples, g')"
    "SlabMean s input samples (slabMean s) = Some sm"
    "s' = s\<lparr>spikeMean := m, spikeSamples := samples, slabMean := sm\<rparr>"
    "for_loop [0..<hiddenSize s] (\<lambda>i buf.
         put_slice buf \<lparr>v_off = 0, v_rows = visibleSize s, v_cols = poolSize s, v_slices = hiddenSize s\<rparr> i
           (scale_r (times_mat input (t (col sm i))) (elem m i)))
       (mem gradient) = Some buf1"
    "for_loop [0..<hiddenSize s] (\<lambda>i buf.
         v_put buf \<lparr>v_off = visibleSize s * poolSize s * hiddenSize s, v_rows = hiddenSize s,
                    v_cols = 1, v_slices = 1\<rparr> i (elem m i)) buf1 = Some buf2"
    "for_loop [0..<visibleSize s] (\<lambda>i buf.
         v_put buf \<lparr>v_off = visibleSize s * poolSize s * hiddenSize s + hiddenSize s,
                    v_rows = visibleSize s, v_cols = 1, v_slices = 1\<rparr> i
           (- 0.5 * elem input i * elem input i)) buf2 = Some (mem gradient')"
    "n_rows gradient' = n_rows gradient" "n_cols gradient' = n_cols gradient"
proof -
  note run' = run [unfolded PositivePhase_alt]
  from run' obtain m where m: "SpikeMean s input (spikeMean s) = Some m"
    by (cases "SpikeMean s input (spikeMean s)") simp_all
  note run1 = run' [unfolded m Option.bind.simps]
  from run1 obtain sg where sg: "SampleSpike rb s m (spikeSamples s) g = Some sg"
    by (cases "SampleSpike rb s m (spikeSamples s) g") simp_all
  note run2 = run1 [unfolded sg Option.bind.simps]
  from run2 obtain sm where sm: "SlabMean s input (fst sg) (slabMean s) = Some sm"
    by (cases "SlabMean s input (fst sg) (slabMean s)") simp_all
  note run3 = run2 [unfolded sm Option.bind.simps]
  let ?l1 = "for_loop [0..<hiddenSize s] (\<lambda>i buf.
         put_slice buf \<lparr>v_off = 0, v_rows = visibleSize s, v_cols = poolSize s, v_slices = hiddenSize s\<rparr> i
           (scale_r (times_mat input (t (col sm i))) (elem m i)))
       (mem gradient)"
  from run3 obtain buf1 where b1: "?l1 = Some buf1"
    by (cases ?l1) simp_all
  note run4 = run3 [unfolded b1 Option.bind.simps]
  let ?l2 = "for_loop [0..<hiddenSize s] (\<lambda>i buf.
         v_put buf \<lparr>v_off = visibleSize s * poolSize s * hiddenSize s, v_rows = hiddenSize s,
                    v_cols = 1, v_slices = 1\<rparr> i (elem m i)) buf1"
  from run4 obtain buf2 where b2: "?l2 = Some buf2"
    by (cases ?l2) simp_all
  note run5 = run4 [unfolded b2 Option.bind.simps]
  let ?l3 = "for_loop [0..<visibleSize s] (\<lambda>i buf.
         v_put buf \<lparr>v_off = visibleSize s * poolSize s * hiddenSize s + hiddenSize s,
                    v_rows = visibleSize s, v_cols = 1, v_slices = 1\<rparr> i
           (- 0.5 * elem input i * elem input i)) buf2"
  from run5 obtain buf3 where b3: "?l3 = Some buf3"
    by (cases ?l3) simp_all
  note run6 = run5 [unfolded b3 Option.bind.simps]
  from run6 have fin: "s' = s\<lparr>spikeMean := m, spikeSamples := fst sg, slabMean := sm\<rparr>"
      "gradient' = gradient\<lparr>mem := buf3\<rparr>" "g' = snd sg"
    by simp_all
  show thesis
  proof (rule that [of m "fst sg" sm buf1 buf2])
    show "SampleSpike rb s m (spikeSamples s) g = Some (fst sg, g')" using sg fin by simp
    show "for_loop [0..<visibleSize s] (\<lambda>i buf.
         v_put buf \<lparr>v_off = visibleSize s * poolSize s * hiddenSize s + hiddenSize s,
                    v_rows = visibleSize s, v_cols = 1, v_slices = 1\<rparr> i
           (- 0.5 * elem input i * elem input i)) buf2 = Some (mem gradient')"
      using b3 fin by simp
  qed (use m sm b1 b2 fin in simp_all)
qed

lemma put_slice_loop_fits:
  assumes "for_loop [0..<n] (\<lambda>i buf. put_slice buf w i (B i)) buf = Some buf'"
  shows "\<forall>i<n. v_off w + v_rows w * v_cols w * i + length (mem (B i)) \<le> length buf"
proof -
  define I where "I = (\<lambda>k (b::real list). length b = length buf \<and>
         (\<forall>i<k. v_off w + v_rows w * v_cols w * i + length (mem (B i)) \<le> length buf))"
  have "I n buf'"
  proof (rule for_loop_partial [OF assms])
    show "I 0 buf" by (simp add: I_def)
  next
    fix i x x'
    assume "i < n" and I: "I i x" and b: "put_slice x w i (B i) = Some x'"
    from b have "v_off w + v_rows w * v_cols w * i + length (mem (B i)) \<le> length x"
      and "length x' = length x"
      by (auto simp: put_slice_def Let_def split: if_splits)
    with I show "I (Suc i) x'" by (auto simp: I_def less_Suc_eq)
  qed
  then show ?thesis by (simp add: I_def)
qed

lemma m_at_scale_r:
  "r < n_rows A \<Longrightarrow> c < n_cols A \<Longrightarrow> mat_ok A \<Longrightarrow> m_at (scale_r A x) r c = m_at A r c * x"
  by (simp add: m_at_def scale_r_def mat_ok_def index_in_range)

lemma m_at_col:
  "r < n_rows A \<Longrightarrow> c < n_cols A \<Longrightarrow> mat_ok A \<Longrightarrow> m_at (col A c) r 0 = m_at A r c"
proof -
  assume a: "r < n_rows A" "c < n_cols A" "mat_ok A"
  then have "r + n_rows A * c < length (mem A)"
    by (simp add: mat_ok_def index_in_range)
  with a show ?thesis by (simp add: m_at_def col_def add.commute)
qed

lemma mat_ok_times_mat [simp]: "mat_ok (times_mat A B)"
  by (simp add: times_mat_def)

lemma NegativePhase_alt: "NegativePhase = PositivePhase"
  by (simp add: fun_eq_iff PositivePhase_def NegativePhase_def)

lemma PositivePhase_gradient:
  assumes run: "PositivePhase rb s input gradient g = Some (s', gradient', g')"
    and ok: "mat_ok (spikeMean s)" "mat_ok (slabMean s)"
  shows "SpikeMean s input (spikeMean s) = Some (spikeMean s')"
    and "SampleSpike rb s (spikeMean s') (spikeSamples s) g = Some (spikeSamples s', g')"
    and "SlabMean s input (spikeSamples s') (slabMean s) = Some (slabMean s')"
    and "s' = s\<lparr>spikeMean := spikeMean s', spikeSamples := spikeSamples s', slabMean := slabMean s'\<rparr>"
    and "n_rows gradient' = n_rows gradient \<and> n_cols gradient' = n_cols gradient \<and>
         length (mem gradient') = length (mem gradient)"
    and "\<forall>i<hiddenSize s.
           slice (mem gradient') \<lparr>v_off = 0, v_rows = visibleSize s, v_cols = poolSize s,
                                  v_slices = hiddenSize s\<rparr> i
           = scale_r (times_mat input (t (col (slabMean s') i))) (elem (spikeMean s') i)"
    and "\<forall>i<hiddenSize s. mem gradient' ! (visibleSize s * poolSize s * hiddenSize s + i)
           = elem (spikeMean s') i"
    and "\<forall>i<visibleSize s. mem gradient' ! (visibleSize s * poolSize s * hiddenSize s + hiddenSize s + i)
           = - 0.5 * elem input i * elem input i"
proof -
  let ?V = "visibleSize s" and ?P = "poolSize s" and ?H = "hiddenSize s"
  let ?w = "\<lparr>v_off = 0, v_rows = ?V, v_cols = ?P, v_slices = ?H\<rparr>"
  let ?b = "\<lparr>v_off = ?V * ?P * ?H, v_rows = ?H, v_cols = 1, v_slices = 1\<rparr>"
  let ?l = "\<lparr>v_off = ?V * ?P * ?H + ?H, v_rows = ?V, v_cols = 1, v_slices = 1\<rparr>"
  from run obtain m samples sm buf1 buf2 where
    m: "SpikeMean s input (spikeMean s) = Some m" and
    ss: "SampleSpike rb s m (spikeSamples s) g = Some (samples, g')" and
    sm: "SlabMean s input samples (slabMean s) = Some sm" and
    s': "s' = s\<lparr>spikeMean := m, spikeSamples := samples, slabMean := sm\<rparr>" and
    l1: "for_loop [0..<?H] (\<lambda>i buf. put_slice buf ?w i
           (scale_r (times_mat input (t (col sm i))) (elem m i))) (mem gradient) = Some buf1" and
    l2: "for_loop [0..<?H] (\<lambda>i buf. v_put buf ?b i (elem m i)) buf1 = Some buf2" and
    l3: "for_loop [0..<?V] (\<lambda>i buf. v_put buf ?l i (- 0.5 * elem input i * elem input i)) buf2
           = Some (mem gradient')" and
    sh: "n_rows gradient' = n_rows gradient" "n_cols gradient' = n_cols gradient"
    by (rule PositivePhase_steps)
  have f: "spikeMean s' = m" "spikeSamples s' = samples" "slabMean s' = sm"
    by (simp_all add: s')
  show "SpikeMean s input (spikeMean s) = Some (spikeMean s')" using m f by simp
  show "SampleSpike rb s (spikeMean s') (spikeSamples s) g = Some (spikeSamples s', g')"
    using ss f by simp
  show "SlabMean s input (spikeSamples s') (slabMean s) = Some (slabMean s')" using sm f by simp
  show "s' = s\<lparr>spikeMean := spikeMean s', spikeSamples := spikeSamples s', slabMean := slabMean s'\<rparr>"
    by (simp add: s')
  have rv: "n_rows input = ?V" using SpikeMean_result [OF m ok(1)] by simp
  have rs: "n_rows sm = ?P" using SlabMean_result [OF sm ok(2)] by simp
  let ?B = "\<lambda>i. scale_r (times_mat input (t (col sm i))) (elem m i)"
  have lB: "length (mem (?B i)) = ?V * ?P" for i by (simp add: rv rs)
  have r1: "length buf1 = length (mem gradient) \<and>
        (\<forall>i<?H. \<forall>j<v_rows ?w * v_cols ?w. buf1 ! (v_off ?w + v_rows ?w * v_cols ?w * i + j) = mem (?B i) ! j) \<and>
        (\<forall>q<length (mem gradient). q < v_off ?w \<or> v_off ?w + v_rows ?w * v_cols ?w * ?H \<le> q \<longrightarrow>
            buf1 ! q = mem gradient ! q)"
    by (rule put_slice_loop [OF l1]) (simp add: rv rs)
  have fit: "\<forall>i<?H. ?V * ?P * i + ?V * ?P \<le> length (mem gradient)"
    using put_slice_loop_fits [OF l1] by (simp add: rv rs)
  note r2 = v_put_loop [OF l2]
  note r3 = v_put_loop [OF l3]
  have len: "length (mem gradient') = length (mem gradient)"
    using r1 r2 r3 by simp
  show "n_rows gradient' = n_rows gradient \<and> n_cols gradient' = n_cols gradient \<and>
         length (mem gradient') = length (mem gradient)"
    using sh len by simp
  have w: "mem gradient' ! (?V * ?P * i + j) = mem (?B i) ! j" if i: "i < ?H" and j: "j < ?V * ?P" for i j
  proof -
    have "j + ?V * ?P * i < ?V * ?P * ?H" using j i by (rule index_in_range)
    then have q: "?V * ?P * i + j < ?V * ?P * ?H" by (simp add: add.commute)
    then have "mem gradient' ! (?V * ?P * i + j) = buf2 ! (?V * ?P * i + j)" using r3 by simp
    also have "\<dots> = buf1 ! (?V * ?P * i + j)" using r2 q by simp
    also have "\<dots> = mem (?B i) ! j" using r1 i j by simp
    finally show ?thesis .
  qed
  show "\<forall>i<?H. slice (mem gradient') ?w i
           = scale_r (times_mat input (t (col (slabMean s') i))) (elem (spikeMean s') i)"
  proof (intro allI impI)
    fix i assume i: "i < ?H"
    have fiti: "?V * ?P * i + ?V * ?P \<le> length (mem gradient')"
      using fit i len by auto
    have "take (?V * ?P) (drop (?V * ?P * i) (mem gradient')) = mem (?B i)"
    proof (rule nth_equalityI)
      show "length (take (?V * ?P) (drop (?V * ?P * i) (mem gradient'))) = length (mem (?B i))"
        using fiti by (simp add: rv rs)
    next
      fix j assume "j < length (take (?V * ?P) (drop (?V * ?P * i) (mem gradient')))"
      then have j: "j < ?V * ?P" by simp
      then show "take (?V * ?P) (drop (?V * ?P * i) (mem gradient')) ! j = mem (?B i) ! j"
        using w [OF i j] fiti by simp
    qed
    then show "slice (mem gradient') ?w i
           = scale_r (times_mat input (t (col (slabMean s') i))) (elem (spikeMean s') i)"
      by (simp add: slice_def f scale_r_def times_mat_def mk_mat_def rv rs)
  qed
  show "\<forall>i<?H. mem gradient' ! (?V * ?P * ?H + i) = elem (spikeMean s') i"
    using r2 r3 by (simp add: f)
  show "\<forall>i<?V. mem gradient' ! (?V * ?P * ?H + ?H + i) = - 0.5 * elem input i * elem input i"
    using r3 by simp
qed

text \<open>
  A run of the positive phase: weights \<open>(1, 0)\<close> and \<open>(1, 1)\<close>, spike biases \<open>- 1/2\<close>,
  visible vector \<open>(1, 0)\<close>.  Both spike means are \<open>1/2\<close>; the first gate fires, the second
  does not.
\<close>

lemma PositivePhase_example:
  "PositivePhase scripted_RandBernoulli (example_policy [1, 0, 1, 1, - 1 / 2, - 1 / 2, 1, 1])
      \<lparr>n_rows = 2, n_cols = 1, mem = [1, 0]\<rparr>
      \<lparr>n_rows = 8, n_cols = 1, mem = [9, 9, 9, 9, 9, 9, 9, 9]\<rparr> [0, 9 / 10]
   = Some ((example_policy [1, 0, 1, 1, - 1 / 2, - 1 / 2, 1, 1])
             \<lparr>spikeMean := \<lparr>n_rows = 2, n_cols = 1, mem = [1 / 2, 1 / 2]\<rparr>,
              spikeSamples := \<lparr>n_rows = 2, n_cols = 1, mem = [1, 0]\<rparr>,
              slabMean := \<lparr>n_rows = 1, n_cols = 2, mem = [1, 0]\<rparr>\<rparr>,
           \<lparr>n_rows = 8, n_cols = 1, mem = [1 / 2, 0, 0, 0, 1 / 2, 1 / 2, - 1 / 2, 0]\<rparr>, [])"
  by (simp add: PositivePhase_def SpikeMean_def SampleSpike_def SlabMean_def example_policy_def
      upt_2 diagmat_i_def col_def put_col_def put_def put_slice_def v_put_def v_n_elem_def
      times_mat_def mk_mat_def scale_l_def scale_r_def t_def slice_def m_at_def elem_def
      v_elem_def as_scalar_def n_elem_def LogisticFunction_Fn_def)

lemma outer_product_entry:
  assumes "r < n_rows input" "k < n_rows sm" "i < n_cols sm" "mat_ok sm" "n_cols input = 1"
  shows "m_at (scale_r (times_mat input (t (col sm i))) x) r k = elem input r * m_at sm k i * x"
proof -
  have "m_at (scale_r (times_mat input (t (col sm i))) x) r k
        = m_at (times_mat input (t (col sm i))) r k * x"
    using assms by (intro m_at_scale_r) simp_all
  also have "m_at (times_mat input (t (col sm i))) r k = m_at input r 0 * m_at (t (col sm i)) 0 k"
    using assms by (simp add: m_at_times_mat)
  also have "m_at (t (col sm i)) 0 k = m_at (col sm i) k 0"
    using assms by (intro m_at_t) simp_all
  also have "m_at (col sm i) k 0 = m_at sm k i"
    using assms by (intro m_at_col) simp_all
  also have "m_at input r 0 = elem input r"
    by (simp add: m_at_def elem_def)
  finally show ?thesis .
qed

text \<open>
  C2, as amended: in \<^verbatim>\<open>PositivePhase\<close> and \<^verbatim>\<open>NegativePhase\<close>, for every hidden unit \<open>i\<close>
  the weight-gradient slice \<open>i\<close> written into the gradient buffer is the outer product
  of the input vector and slab-mean column \<open>i\<close>, scaled by the spike mean
  \<open>spikeMean(i)\<close>; the slice is zero whenever the sampled gate did not fire, because
  slab-mean column \<open>i\<close> is computed from the sampled spike.
\<close>

theorem weight_gradient_slice:
  assumes run: "PositivePhase rb s input gradient g = Some (s', gradient', g') \<or>
                NegativePhase rb s input gradient g = Some (s', gradient', g')"
    and ok: "mat_ok (spikeMean s)" "mat_ok (slabMean s)"
    and i: "i < hiddenSize s"
  shows "SpikeMean s input (spikeMean s) = Some (spikeMean s') \<and>
         SampleSpike rb s (spikeMean s') (spikeSamples s) g = Some (spikeSamples s', g') \<and>
         SlabMean s input (spikeSamples s') (slabMean s) = Some (slabMean s') \<and>
         slice (mem gradient') \<lparr>v_off = 0, v_rows = visibleSize s, v_cols = poolSize s,
                                v_slices = hiddenSize s\<rparr> i
           = scale_r (times_mat input (t (col (slabMean s') i))) (elem (spikeMean s') i) \<and>
         (\<forall>r<visibleSize s. \<forall>k<poolSize s.
            m_at (slice (mem gradient') \<lparr>v_off = 0, v_rows = visibleSize s, v_cols = poolSize s,
                                         v_slices = hiddenSize s\<rparr> i) r k
              = elem input r * m_at (slabMean s') k i * elem (spikeMean s') i) \<and>
         (elem (spikeSamples s') i = 0 \<longrightarrow>
            (\<forall>r<visibleSize s. \<forall>k<poolSize s.
               m_at (slice (mem gradient') \<lparr>v_off = 0, v_rows = visibleSize s, v_cols = poolSize s,
                                            v_slices = hiddenSize s\<rparr> i) r k = 0))"
proof -
  from run have run': "PositivePhase rb s input gradient g = Some (s', gradient', g')"
    by (simp add: NegativePhase_alt)
  note res = PositivePhase_gradient [OF run' ok]
  note sl = res(6) [rule_format, OF i]
  have shv: "n_rows input = visibleSize s" "n_cols input = 1"
    using SpikeMean_result [OF res(1) ok(1)] by simp_all
  have shs: "n_rows (slabMean s') = poolSize s" "n_cols (slabMean s') = hiddenSize s"
      "mat_ok (slabMean s')"
    using SlabMean_result [OF res(3) ok(2)] by simp_all
  have entry: "m_at (slice (mem gradient') \<lparr>v_off = 0, v_rows = visibleSize s, v_cols = poolSize s,
                                         v_slices = hiddenSize s\<rparr> i) r k
              = elem input r * m_at (slabMean s') k i * elem (spikeMean s') i"
    if "r < visibleSize s" "k < poolSize s" for r k
    unfolding sl using that i shv shs by (intro outer_product_entry) simp_all
  have zero: "m_at (slabMean s') k i = 0" if "elem (spikeSamples s') i = 0" "k < poolSize s" for k
    using res(3) ok(2) i that by (rule SlabMean_zero_entry)
  show ?thesis
    using res(1,2,3) sl entry zero by simp
qed

theorem weight_gradient_slice_witness:
  "PositivePhase scripted_RandBernoulli (example_policy [1, 0, 1, 1, - 1 / 2, - 1 / 2, 1, 1])
      \<lparr>n_rows = 2, n_cols = 1, mem = [1, 0]\<rparr>
      \<lparr>n_rows = 8, n_cols = 1, mem = [9, 9, 9, 9, 9, 9, 9, 9]\<rparr> [0, 9 / 10]
   = Some ((example_policy [1, 0, 1, 1, - 1 / 2, - 1 / 2, 1, 1])
             \<lparr>spikeMean := \<lparr>n_rows = 2, n_cols = 1, mem = [1 / 2, 1 / 2]\<rparr>,
              spikeSamples := \<lparr>n_rows = 2, n_cols = 1, mem = [1, 0]\<rparr>,
              slabMean := \<lparr>n_rows = 1, n_cols = 2, mem = [1, 0]\<rparr>\<rparr>,
           \<lparr>n_rows = 8, n_cols = 1, mem = [1 / 2, 0, 0, 0, 1 / 2, 1 / 2, - 1 / 2, 0]\<rparr>, []) \<and>
   slice [1 / 2, 0, 0, 0, 1 / 2, 1 / 2, - 1 / 2, 0]
      \<lparr>v_off = 0, v_rows = 2, v_cols = 1, v_slices = 2\<rparr> 0
     = scale_r (times_mat \<lparr>n_rows = 2, n_cols = 1, mem = [1, 0]\<rparr>
                  (t (col \<lparr>n_rows = 1, n_cols = 2, mem = [1, 0]\<rparr> 0))) (1 / 2) \<and>
   slice [1 / 2, 0, 0, 0, 1 / 2, 1 / 2, - 1 / 2, 0]
      \<lparr>v_off = 0, v_rows = 2, v_cols = 1, v_slices = 2\<rparr> 1
     = scale_r (times_mat \<lparr>n_rows = 2, n_cols = 1, mem = [1, 0]\<rparr>
                  (t (col \<lparr>n_rows = 1, n_cols = 2, mem = [1, 0]\<rparr> 1))) (1 / 2)"
proof -
  let ?s = "example_policy [1, 0, 1, 1, - 1 / 2, - 1 / 2, 1, 1]"
  have ok: "mat_ok (spikeMean ?s)" "mat_ok (slabMean ?s)"
    by (simp_all add: example_policy_def mat_ok_def)
  have h: "(0::nat) < hiddenSize ?s" "(1::nat) < hiddenSize ?s"
    by (simp_all add: example_policy_def)
  note run = PositivePhase_example
  from weight_gradient_slice [OF disjI1, OF run ok h(1)]
       weight_gradient_slice [OF disjI1, OF run ok h(2)] run
  show ?thesis
    by (simp add: example_policy_def elem_def)
qed

text \<open>
  C2, as stated, has the slice scaled by the sampled spike.  In the run above the first
  gate fires (sample 1) with spike mean \<open>1/2\<close>: the slice written is \<open>(1/2, 0)\<close>, the
  outer product scaled by the sample is \<open>(1, 0)\<close>.
\<close>

theorem weight_gradient_not_scaled_by_sample:
  "PositivePhase scripted_RandBernoulli (example_policy [1, 0, 1, 1, - 1 / 2, - 1 / 2, 1, 1])
      \<lparr>n_rows = 2, n_cols = 1, mem = [1, 0]\<rparr>
      \<lparr>n_rows = 8, n_cols = 1, mem = [9, 9, 9, 9, 9, 9, 9, 9]\<rparr> [0, 9 / 10]
   = Some ((example_policy [1, 0, 1, 1, - 1 / 2, - 1 / 2, 1, 1])
             \<lparr>spikeMean := \<lparr>n_rows = 2, n_cols = 1, mem = [1 / 2, 1 / 2]\<rparr>,
              spikeSamples := \<lparr>n_rows = 2, n_cols = 1, mem = [1, 0]\<rparr>,
              slabMean := \<lparr>n_rows = 1, n_cols = 2, mem = [1, 0]\<rparr>\<rparr>,
           \<lparr>n_rows = 8, n_cols = 1, mem = [1 / 2, 0, 0, 0, 1 / 2, 1 / 2, - 1 / 2, 0]\<rparr>, []) \<and>
   slice [1 / 2, 0, 0, 0, 1 / 2, 1 / 2, - 1 / 2, 0]
      \<lparr>v_off = 0, v_rows = 2, v_cols = 1, v_slices = 2\<rparr> 0
     \<noteq> scale_r (times_mat \<lparr>n_rows = 2, n_cols = 1, mem = [1, 0]\<rparr>
                  (t (col \<lparr>n_rows = 1, n_cols = 2, mem = [1, 0]\<rparr> 0)))
          (elem \<lparr>n_rows = 2, n_cols = 1, mem = [1, 0]\<rparr> 0)"
  using PositivePhase_example
  by (simp add: slice_def scale_r_def times_mat_def mk_mat_def t_def col_def m_at_def elem_def upt_2)

lemma Reset_views:
  "weight (Reset s) = \<lparr>v_off = 0, v_rows = visibleSize s, v_cols = poolSize s,
                        v_slices = hiddenSize s\<rparr>"
  "spikeBias (Reset s) = \<lparr>v_off = visibleSize s * poolSize s * hiddenSize s,
                           v_rows = hiddenSize s, v_cols = 1, v_slices = 1\<rparr>"
  "visiblePenalty (Reset s) = \<lparr>v_off = visibleSize s * poolSize s * hiddenSize s + hiddenSize s,
                                v_rows = visibleSize s, v_cols = 1, v_slices = 1\<rparr>"
  by (simp_all add: Reset_def Let_def v_n_elem_def)

text \<open>
  C6: after \<^verbatim>\<open>Reset\<close> the weight, spike-bias and visible-precision views cover the
  positions \<open>[0, V\<cdot>P\<cdot>H)\<close>, \<open>[V\<cdot>P\<cdot>H, V\<cdot>P\<cdot>H + H)\<close> and \<open>[V\<cdot>P\<cdot>H + H, V\<cdot>P\<cdot>H + H + V)\<close>
  of the parameter buffer, and what \<^verbatim>\<open>PositivePhase\<close> and \<^verbatim>\<open>NegativePhase\<close> write is
  found in the gradient buffer through these same three views: the weight gradient,
  the spike-bias gradient and the visible-precision gradient.
\<close>

theorem parameter_and_gradient_layout:
  "v_range (weight (Reset s)) = {0 ..< visibleSize s * poolSize s * hiddenSize s} \<and>
   v_range (spikeBias (Reset s)) =
     {visibleSize s * poolSize s * hiddenSize s ..<
      visibleSize s * poolSize s * hiddenSize s + hiddenSize s} \<and>
   v_range (visiblePenalty (Reset s)) =
     {visibleSize s * poolSize s * hiddenSize s + hiddenSize s ..<
      visibleSize s * poolSize s * hiddenSize s + hiddenSize s + visibleSize s} \<and>
   ((PositivePhase rb s input gradient g = Some (s', gradient', g') \<or>
     NegativePhase rb s input gradient g = Some (s', gradient', g')) \<and>
    mat_ok (spikeMean s) \<and> mat_ok (slabMean s) \<longrightarrow>
      length (mem gradient') = length (mem gradient) \<and>
      (\<forall>i<hiddenSize s. slice (mem gradient') (weight (Reset s)) i =
          scale_r (times_mat input (t (col (slabMean s') i))) (elem (spikeMean s') i)) \<and>
      (\<forall>i<hiddenSize s. v_elem (mem gradient') (spikeBias (Reset s)) i = elem (spikeMean s') i) \<and>
      (\<forall>i<visibleSize s. v_elem (mem gradient') (visiblePenalty (Reset s)) i =
          - 0.5 * elem input i * elem input i))"
proof -
  have layout: "v_range (weight (Reset s)) = {0 ..< visibleSize s * poolSize s * hiddenSize s}"
    "v_range (spikeBias (Reset s)) =
     {visibleSize s * poolSize s * hiddenSize s ..<
      visibleSize s * poolSize s * hiddenSize s + hiddenSize s}"
    "v_range (visiblePenalty (Reset s)) =
     {visibleSize s * poolSize s * hiddenSize s + hiddenSize s ..<
      visibleSize s * poolSize s * hiddenSize s + hiddenSize s + visibleSize s}"
    by (simp_all add: v_range_def v_n_elem_def Reset_views)
  have grad: "length (mem gradient') = length (mem gradient) \<and>
      (\<forall>i<hiddenSize s. slice (mem gradient') (weight (Reset s)) i =
          scale_r (times_mat input (t (col (slabMean s') i))) (elem (spikeMean s') i)) \<and>
      (\<forall>i<hiddenSize s. v_elem (mem gradient') (spikeBias (Reset s)) i = elem (spikeMean s') i) \<and>
      (\<forall>i<visibleSize s. v_elem (mem gradient') (visiblePenalty (Reset s)) i =
          - 0.5 * elem input i * elem input i)"
    if run: "PositivePhase rb s input gradient g = Some (s', gradient', g') \<or>
             NegativePhase rb s input gradient g = Some (s', gradient', g')"
      and ok: "mat_ok (spikeMean s)" "mat_ok (slabMean s)"
  proof -
    from run have run': "PositivePhase rb s input gradient g = Some (s', gradient', g')"
      by (simp add: NegativePhase_alt)
    note res = PositivePhase_gradient [OF run' ok]
    show ?thesis
      using res(5) res(6) res(7) res(8) by (simp add: Reset_views v_elem_def)
  qed
  show ?thesis using layout grad by blast
qed

theorem parameter_and_gradient_layout_witness:
  "v_range (weight (Reset (example_policy [1, 0, 1, 1, - 1 / 2, - 1 / 2, 1, 1]))) = {0 ..< 4} \<and>
   v_range (spikeBias (Reset (example_policy [1, 0, 1, 1, - 1 / 2, - 1 / 2, 1, 1]))) = {4 ..< 6} \<and>
   v_range (visiblePenalty (Reset (example_policy [1, 0, 1, 1, - 1 / 2, - 1 / 2, 1, 1]))) = {6 ..< 8} \<and>
   NegativePhase scripted_RandBernoulli (example_policy [1, 0, 1, 1, - 1 / 2, - 1 / 2, 1, 1])
      \<lparr>n_rows = 2, n_cols = 1, mem = [1, 0]\<rparr>
      \<lparr>n_rows = 8, n_cols = 1, mem = [9, 9, 9, 9, 9, 9, 9, 9]\<rparr> [0, 9 / 10]
   = Some ((example_policy [1, 0, 1, 1, - 1 / 2, - 1 / 2, 1, 1])
             \<lparr>spikeMean := \<lparr>n_rows = 2, n_cols = 1, mem = [1 / 2, 1 / 2]\<rparr>,
              spikeSamples := \<lparr>n_rows = 2, n_cols = 1, mem = [1, 0]\<rparr>,
              slabMean := \<lparr>n_rows = 1, n_cols = 2, mem = [1, 0]\<rparr>\<rparr>,
           \<lparr>n_rows = 8, n_cols = 1, mem = [1 / 2, 0, 0, 0, 1 / 2, 1 / 2, - 1 / 2, 0]\<rparr>, []) \<and>
   v_elem [1 / 2, 0, 0, 0, 1 / 2, 1 / 2, - 1 / 2, 0]
      (spikeBias (Reset (example_policy [1, 0, 1, 1, - 1 / 2, - 1 / 2, 1, 1]))) 1 = 1 / 2 \<and>
   v_elem [1 / 2, 0, 0, 0, 1 / 2, 1 / 2, - 1 / 2, 0]
      (visiblePenalty (Reset (example_policy [1, 0, 1, 1, - 1 / 2, - 1 / 2, 1, 1]))) 0 = - 1 / 2 \<and>
   slice [1 / 2, 0, 0, 0, 1 / 2, 1 / 2, - 1 / 2, 0]
      (weight (Reset (example_policy [1, 0, 1, 1, - 1 / 2, - 1 / 2, 1, 1]))) 0
     = \<lparr>n_rows = 2, n_cols = 1, mem = [1 / 2, 0]\<rparr>"
proof -
  let ?s = "example_policy [1, 0, 1, 1, - 1 / 2, - 1 / 2, 1, 1]"
  have ok: "mat_ok (spikeMean ?s)" "mat_ok (slabMean ?s)"
    by (simp_all add: example_policy_def mat_ok_def)
  have run: "NegativePhase scripted_RandBernoulli ?s
      \<lparr>n_rows = 2, n_cols = 1, mem = [1, 0]\<rparr>
      \<lparr>n_rows = 8, n_cols = 1, mem = [9, 9, 9, 9, 9, 9, 9, 9]\<rparr> [0, 9 / 10]
   = Some (?s\<lparr>spikeMean := \<lparr>n_rows = 2, n_cols = 1, mem = [1 / 2, 1 / 2]\<rparr>,
              spikeSamples := \<lparr>n_rows = 2, n_cols = 1, mem = [1, 0]\<rparr>,
              slabMean := \<lparr>n_rows = 1, n_cols = 2, mem = [1, 0]\<rparr>\<rparr>,
           \<lparr>n_rows = 8, n_cols = 1, mem = [1 / 2, 0, 0, 0, 1 / 2, 1 / 2, - 1 / 2, 0]\<rparr>, [])"
    using PositivePhase_example by (simp add: NegativePhase_alt)
  from parameter_and_gradient_layout [of ?s scripted_RandBernoulli
      "\<lparr>n_rows = 2, n_cols = 1, mem = [1, 0]\<rparr>"
      "\<lparr>n_rows = 8, n_cols = 1, mem = [9, 9, 9, 9, 9, 9, 9, 9]\<rparr>" "[0, 9 / 10]"
      "?s\<lparr>spikeMean := \<lparr>n_rows = 2, n_cols = 1, mem = [1 / 2, 1 / 2]\<rparr>,
              spikeSamples := \<lparr>n_rows = 2, n_cols = 1, mem = [1, 0]\<rparr>,
              slabMean := \<lparr>n_rows = 1, n_cols = 2, mem = [1, 0]\<rparr>\<rparr>"
      "\<lparr>n_rows = 8, n_cols = 1, mem = [1 / 2, 0, 0, 0, 1 / 2, 1 / 2, - 1 / 2, 0]\<rparr>" "[]"]
    run ok
  show ?thesis
    by (simp add: example_policy_def elem_def Reset_views v_elem_def slice_def v_range_def v_n_elem_def)
qed

section \<open>Hidden mean\<close>

lemma length_mem_set_size [simp]: "length (mem (set_size A r c junk)) = r * c"
  by (simp add: set_size_def)

lemma shape_set_size [simp]:
  "n_rows (set_size A r c junk) = r" "n_cols (set_size A r c junk) = c"
  by (simp_all add: set_size_def)

lemma HiddenMean_alt:
  "HiddenMean rb s input output junk g =
   Option.bind (assert (n_elem input = visibleSize s)) (\<lambda>_.
   Option.bind (SpikeMean s input
       \<lparr>n_rows = hiddenSize s, n_cols = 1,
        mem = take (hiddenSize s)
                (mem (set_size output (hiddenSize s + poolSize s * hiddenSize s) 1 junk))\<rparr>) (\<lambda>m.
   Option.bind (SampleSpike rb s m (spikeSamples s) g) (\<lambda>sg.
   Option.bind (SlabMean s input (fst sg)
       \<lparr>n_rows = poolSize s, n_cols = hiddenSize s,
        mem = take (poolSize s * hiddenSize s) (drop (hiddenSize s)
                (mem (set_size output (hiddenSize s + poolSize s * hiddenSize s) 1 junk)))\<rparr>) (\<lambda>sl.
     Some ((set_size output (hiddenSize s + poolSize s * hiddenSize s) 1 junk)\<lparr>mem := mem m @ mem sl\<rparr>,
           s\<lparr>spikeSamples := fst sg\<rparr>, snd sg)))))"
  by (simp add: HiddenMean_def Let_def case_prod_unfold del: bind_assert)

lemma HiddenMean_steps:
  assumes run: "HiddenMean rb s input output junk g = Some (output', s', g')"
  obtains m samples sl where
    "SpikeMean s input
       \<lparr>n_rows = hiddenSize s, n_cols = 1,
        mem = take (hiddenSize s)
                (mem (set_size output (hiddenSize s + poolSize s * hiddenSize s) 1 junk))\<rparr> = Some m"
    "SampleSpike rb s m (spikeSamples s) g = Some (samples, g')"
    "SlabMean s input samples
       \<lparr>n_rows = poolSize s, n_cols = hiddenSize s,
        mem = take (poolSize s * hiddenSize s) (drop (hiddenSize s)
                (mem (set_size output (hiddenSize s + poolSize s * hiddenSize s) 1 junk)))\<rparr> = Some sl"
    "s' = s\<lparr>spikeSamples := samples\<rparr>"
    "n_rows output' = hiddenSize s + poolSize s * hiddenSize s" "n_cols output' = 1"
    "mem output' = mem m @ mem sl"
proof -
  let ?o = "set_size output (hiddenSize s + poolSize s * hiddenSize s) 1 junk"
  let ?sp = "\<lparr>n_rows = hiddenSize s, n_cols = 1, mem = take (hiddenSize s) (mem ?o)\<rparr>"
  let ?sl = "\<lparr>n_rows = poolSize s, n_cols = hiddenSize s,
        mem = take (poolSize s * hiddenSize s) (drop (hiddenSize s) (mem ?o))\<rparr>"
  note run' = run [unfolded HiddenMean_alt]
  from run' have a: "assert (n_elem input = visibleSize s) = Some ()"
    by (cases "assert (n_elem input = visibleSize s)") simp_all
  note run0 = run' [unfolded a Option.bind.simps]
  from run0 obtain m where m: "SpikeMean s input ?sp = Some m"
    by (cases "SpikeMean s input ?sp") simp_all
  note run1 = run0 [unfolded m Option.bind.simps]
  from run1 obtain sg where sg: "SampleSpike rb s m (spikeSamples s) g = Some sg"
    by (cases "SampleSpike rb s m (spikeSamples s) g") simp_all
  note run2 = run1 [unfolded sg Option.bind.simps]
  from run2 obtain sl where sl: "SlabMean s input (fst sg) ?sl = Some sl"
    by (cases "SlabMean s input (fst sg) ?sl") simp_all
  note run3 = run2 [unfolded sl Option.bind.simps]
  from run3 have fin: "output' = ?o\<lparr>mem := mem m @ mem sl\<rparr>" "s' = s\<lparr>spikeSamples := fst sg\<rparr>"
      "g' = snd sg"
    by simp_all
  show thesis
  proof (rule that [of m "fst sg" sl])
    show "SampleSpike rb s m (spikeSamples s) g = Some (fst sg, g')" using sg fin by simp
  qed (use m sl fin in simp_all)
qed

text \<open>
  C10: for every visible input of length \<open>V\<close>, the first \<open>H\<close> entries of the output of
  \<^verbatim>\<open>HiddenMean\<close> are the spike means, a function of the object and the input alone:
  another sampler and another generator state give the same entries.  The spike
  sample is drawn from these means and goes to the scratch buffer \<^verbatim>\<open>spikeSamples\<close>,
  the only part of the object that changes; the rest of the output is the slab mean
  computed from that sample.
\<close>

theorem HiddenMean_output:
  assumes run: "HiddenMean rb s input output junk g = Some (output', s', g')"
  shows "n_rows output' = hiddenSize s + poolSize s * hiddenSize s \<and> n_cols output' = 1 \<and>
    (\<forall>i<hiddenSize s. \<exists>D. diagmat_i (col (slabPenalty s) i) = Some D \<and>
       elem output' i = LogisticFunction_Fn (0.5 * as_scalar
                 (times_mat (times_mat (times_mat (times_mat (t input)
                    (slice (mem (parameter s)) (weight s) i)) D)
                    (t (slice (mem (parameter s)) (weight s) i))) input)
               + v_elem (mem (parameter s)) (spikeBias s) i)) \<and>
    (HiddenMean rb_other s input output junk g_other = Some (output_other, s_other, g_other') \<longrightarrow>
       take (hiddenSize s) (mem output_other) = take (hiddenSize s) (mem output')) \<and>
    s' = s\<lparr>spikeSamples := spikeSamples s'\<rparr> \<and>
    SampleSpike rb s \<lparr>n_rows = hiddenSize s, n_cols = 1, mem = take (hiddenSize s) (mem output')\<rparr>
       (spikeSamples s) g = Some (spikeSamples s', g') \<and>
    (\<exists>slab. SlabMean s input (spikeSamples s') slab
       = Some \<lparr>n_rows = poolSize s, n_cols = hiddenSize s, mem = drop (hiddenSize s) (mem output')\<rparr>)"
proof -
  let ?o = "set_size output (hiddenSize s + poolSize s * hiddenSize s) 1 junk"
  let ?sp = "\<lparr>n_rows = hiddenSize s, n_cols = 1, mem = take (hiddenSize s) (mem ?o)\<rparr>"
  let ?sl = "\<lparr>n_rows = poolSize s, n_cols = hiddenSize s,
        mem = take (poolSize s * hiddenSize s) (drop (hiddenSize s) (mem ?o))\<rparr>"
  from run obtain m samples sl where
    m: "SpikeMean s input ?sp = Some m" and
    ss: "SampleSpike rb s m (spikeSamples s) g = Some (samples, g')" and
    sl: "SlabMean s input samples ?sl = Some sl" and
    s': "s' = s\<lparr>spikeSamples := samples\<rparr>" and
    sh: "n_rows output' = hiddenSize s + poolSize s * hiddenSize s" "n_cols output' = 1" and
    mem: "mem output' = mem m @ mem sl"
    by (rule HiddenMean_steps)
  have oksp: "mat_ok ?sp" and oksl: "mat_ok ?sl"
    by (simp_all add: mat_ok_def)
  note rm = SpikeMean_result [OF m oksp]
  note rl = SlabMean_result [OF sl oksl]
  have lm: "length (mem m) = hiddenSize s" using rm by (simp add: mat_ok_def)
  have tk: "take (hiddenSize s) (mem output') = mem m" by (simp add: mem lm)
  have dr: "drop (hiddenSize s) (mem output') = mem sl" by (simp add: mem lm)
  have m_eq: "\<lparr>n_rows = hiddenSize s, n_cols = 1, mem = mem m\<rparr> = m" using rm by simp
  have sl_eq: "\<lparr>n_rows = poolSize s, n_cols = hiddenSize s, mem = mem sl\<rparr> = sl" using rl by simp
  have el: "elem output' i = elem m i" if "i < hiddenSize s" for i
    using that by (simp add: elem_def mem nth_append lm)
  have means: "\<forall>i<hiddenSize s. \<exists>D. diagmat_i (col (slabPenalty s) i) = Some D \<and>
       elem output' i = LogisticFunction_Fn (0.5 * as_scalar
                 (times_mat (times_mat (times_mat (times_mat (t input)
                    (slice (mem (parameter s)) (weight s) i)) D)
                    (t (slice (mem (parameter s)) (weight s) i))) input)
               + v_elem (mem (parameter s)) (spikeBias s) i)"
    using rm el by simp
  have indep: "take (hiddenSize s) (mem output_other) = take (hiddenSize s) (mem output')"
    if run2: "HiddenMean rb_other s input output junk g_other = Some (output_other, s_other, g_other')"
  proof -
    from run2 obtain m2 and sl2 :: mat where
      m2: "SpikeMean s input ?sp = Some m2" and mem2: "mem output_other = mem m2 @ mem sl2"
      by (rule HiddenMean_steps) blast
    from m m2 have "m2 = m" by simp
    then show ?thesis by (simp add: mem2 tk lm)
  qed
  have samp: "SampleSpike rb s \<lparr>n_rows = hiddenSize s, n_cols = 1, mem = take (hiddenSize s) (mem output')\<rparr>
       (spikeSamples s) g = Some (spikeSamples s', g')"
    unfolding tk m_eq using ss by (simp add: s')
  have slab: "\<exists>slab. SlabMean s input (spikeSamples s') slab
       = Some \<lparr>n_rows = poolSize s, n_cols = hiddenSize s, mem = drop (hiddenSize s) (mem output')\<rparr>"
    unfolding dr sl_eq using sl by (auto simp: s')
  have st: "s' = s\<lparr>spikeSamples := spikeSamples s'\<rparr>" by (simp add: s')
  show ?thesis using sh means indep st samp slab by blast
qed

theorem HiddenMean_output_witness:
  "HiddenMean scripted_RandBernoulli (example_policy [1, 0, 1, 1, - 1 / 2, - 1 / 2, 1, 1])
      \<lparr>n_rows = 2, n_cols = 1, mem = [1, 0]\<rparr> empty_mat (\<lambda>i. 7) [0, 9 / 10]
   = Some (\<lparr>n_rows = 4, n_cols = 1, mem = [1 / 2, 1 / 2, 1, 0]\<rparr>,
           (example_policy [1, 0, 1, 1, - 1 / 2, - 1 / 2, 1, 1])
             \<lparr>spikeSamples := \<lparr>n_rows = 2, n_cols = 1, mem = [1, 0]\<rparr>\<rparr>, []) \<and>
   SampleSpike scripted_RandBernoulli (example_policy [1, 0, 1, 1, - 1 / 2, - 1 / 2, 1, 1])
       \<lparr>n_rows = 2, n_cols = 1, mem = [1 / 2, 1 / 2]\<rparr>
       \<lparr>n_rows = 2, n_cols = 1, mem = [0, 0]\<rparr> [0, 9 / 10]
     = Some (\<lparr>n_rows = 2, n_cols = 1, mem = [1, 0]\<rparr>, [])"
proof -
  let ?s = "example_policy [1, 0, 1, 1, - 1 / 2, - 1 / 2, 1, 1]"
  have run: "HiddenMean scripted_RandBernoulli ?s
      \<lparr>n_rows = 2, n_cols = 1, mem = [1, 0]\<rparr> empty_mat (\<lambda>i. 7) [0, 9 / 10]
   = Some (\<lparr>n_rows = 4, n_cols = 1, mem = [1 / 2, 1 / 2, 1, 0]\<rparr>,
           ?s\<lparr>spikeSamples := \<lparr>n_rows = 2, n_cols = 1, mem = [1, 0]\<rparr>\<rparr>, [])"
    by (simp add: HiddenMean_def SpikeMean_def SampleSpike_def SlabMean_def example_policy_def
      upt_2 upt_4 set_size_def empty_mat_def diagmat_i_def col_def put_col_def put_def
      times_mat_def mk_mat_def scale_l_def t_def slice_def m_at_def elem_def
      v_elem_def as_scalar_def n_elem_def LogisticFunction_Fn_def)
  from HiddenMean_output [OF run, where rb_other = scripted_RandBernoulli and g_other = "[]"
      and output_other = empty_mat and s_other = ?s and g_other' = "[]"] run
  show ?thesis
    by (simp add: example_policy_def)
qed

section \<open>Sampling the visible layer\<close>

lemma draw_visible_total:
  assumes pos: "\<forall>i<visibleSize s. 0 < v_elem (mem (parameter s)) (visiblePenalty s) i"
  shows "\<exists>r. draw_visible rn s og = Some r"
proof -
  have "\<exists>y. for_loop [0..<visibleSize s] (\<lambda>i (output, g). do {
         assert (v_elem (mem (parameter s)) (visiblePenalty s) i > 0);
         let (x, g') = rn (elem output i)
                          (1.0 / v_elem (mem (parameter s)) (visiblePenalty s) i) g;
         Some (put output i x, g')
       }) og = Some y \<and> True"
    by (rule for_loop_total) (use pos in \<open>auto simp: split_beta Let_def\<close>)
  then show ?thesis by (simp add: draw_visible_def)
qed

lemma SampleVisible_trials_total:
  assumes pos: "\<forall>i<visibleSize s. 0 < v_elem (mem (parameter s)) (visiblePenalty s) i"
  shows "\<exists>r. SampleVisible_trials rn s n og = Some r"
proof (induction n arbitrary: og)
  case 0
  show ?case by simp
next
  case (Suc n)
  from draw_visible_total [OF pos] obtain r where r: "draw_visible rn s og = Some r" by blast
  obtain out g where rg: "r = (out, g)" by (cases r)
  show ?case using Suc [of "(out, g)"] by (simp add: r rg)
qed

lemma SampleVisible_trials_draws:
  assumes "SampleVisible_trials rn s N og = Some r" and "0 < N"
  shows "\<exists>n. 1 \<le> n \<and> n \<le> N \<and>
           ((\<lambda>x. Option.bind x (draw_visible rn s)) ^^ n) (Some og) = Some r \<and>
           (\<forall>j. 0 < j \<and> j < n \<longrightarrow>
              (\<exists>out gj. ((\<lambda>x. Option.bind x (draw_visible rn s)) ^^ j) (Some og) = Some (out, gj) \<and>
                 \<not> norm2 out < radius s)) \<and>
           (n < N \<longrightarrow> norm2 (fst r) < radius s)"
  using assms
proof (induction N arbitrary: og)
  case 0
  then show ?case by simp
next
  case (Suc N)
  let ?f = "\<lambda>x. Option.bind x (draw_visible rn s)"
  from Suc.prems(1) obtain out1 g1 where d: "draw_visible rn s og = Some (out1, g1)"
    by (cases "draw_visible rn s og") auto
  have one: "(?f ^^ 1) (Some og) = Some (out1, g1)" by (simp add: d)
  show ?case
  proof (cases "norm2 out1 < radius s")
    case True
    with Suc.prems(1) d have "r = (out1, g1)" by simp
    with True one have "1 \<le> (1::nat) \<and> 1 \<le> Suc N \<and> (?f ^^ 1) (Some og) = Some r \<and>
           (\<forall>j. 0 < j \<and> j < 1 \<longrightarrow>
              (\<exists>out gj. (?f ^^ j) (Some og) = Some (out, gj) \<and> \<not> norm2 out < radius s)) \<and>
           (1 < Suc N \<longrightarrow> norm2 (fst r) < radius s)"
      by auto
    then show ?thesis by blast
  next
    case False
    with Suc.prems(1) d have rest: "SampleVisible_trials rn s N (out1, g1) = Some r" by simp
    show ?thesis
    proof (cases "N = 0")
      case True
      with rest have "r = (out1, g1)" by simp
      with True one have "1 \<le> (1::nat) \<and> 1 \<le> Suc N \<and> (?f ^^ 1) (Some og) = Some r \<and>
           (\<forall>j. 0 < j \<and> j < 1 \<longrightarrow>
              (\<exists>out gj. (?f ^^ j) (Some og) = Some (out, gj) \<and> \<not> norm2 out < radius s)) \<and>
           (1 < Suc N \<longrightarrow> norm2 (fst r) < radius s)"
        by auto
      then show ?thesis by blast
    next
      case False
      then have "0 < N" by simp
      from Suc.IH [OF rest this] obtain n where n: "1 \<le> n" "n \<le> N"
        "(?f ^^ n) (Some (out1, g1)) = Some r"
        "\<forall>j. 0 < j \<and> j < n \<longrightarrow>
              (\<exists>out gj. (?f ^^ j) (Some (out1, g1)) = Some (out, gj) \<and> \<not> norm2 out < radius s)"
        "n < N \<longrightarrow> norm2 (fst r) < radius s"
        by blast
      have shift: "(?f ^^ Suc k) (Some og) = (?f ^^ k) (Some (out1, g1))" for k
      proof -
        have "(?f ^^ Suc k) (Some og) = (?f ^^ k) (?f (Some og))"
          by (simp only: funpow_Suc_right o_apply)
        also have "?f (Some og) = Some (out1, g1)" by (simp add: d)
        finally show ?thesis .
      qed
      have early: "\<exists>out gj. (?f ^^ j) (Some og) = Some (out, gj) \<and> \<not> norm2 out < radius s"
        if j: "0 < j \<and> j < Suc n" for j
      proof (cases "j = 1")
        case True
        with one \<open>\<not> norm2 out1 < radius s\<close> show ?thesis by auto
      next
        case False
        with j obtain k where k: "j = Suc k" "0 < k" "k < n" by (cases j) auto
        with n(4) shift [of k] show ?thesis by simp
      qed
      have "1 \<le> Suc n \<and> Suc n \<le> Suc N \<and> (?f ^^ Suc n) (Some og) = Some r \<and>
           (\<forall>j. 0 < j \<and> j < Suc n \<longrightarrow>
              (\<exists>out gj. (?f ^^ j) (Some og) = Some (out, gj) \<and> \<not> norm2 out < radius s)) \<and>
           (Suc n < Suc N \<longrightarrow> norm2 (fst r) < radius s)"
        using n early shift [of n] by simp
      then show ?thesis by blast
    qed
  qed
qed

lemma SampleVisible_trials_unfold:
  "0 < n \<Longrightarrow> SampleVisible_trials rn s n og =
     (case draw_visible rn s og of
        None \<Rightarrow> None
      | Some (output, g) \<Rightarrow>
          if norm2 output < radius s then Some (output, g)
          else SampleVisible_trials rn s (n - 1) (output, g))"
  by (cases n) (simp_all split: option.splits)

lemma norm2_pair: "norm2 \<lparr>n_rows = r, n_cols = c, mem = [x, 0]\<rparr> = \<bar>x\<bar>"
  by (simp add: norm2_def)

text \<open>
  C4: \<^verbatim>\<open>SampleVisible\<close> makes at most 10 draws of the whole vector and stops at the
  first draw whose Euclidean norm is below \<^verbatim>\<open>radius\<close>; when no draw is, the tenth draw
  is returned.  The returned vector and generator are those after \<open>n\<close> consecutive
  draws, \<open>1 \<le> n \<le> 10\<close>; no earlier draw was below the radius, and the returned one is
  unless \<open>n = 10\<close>.  The call does not fail once \<^verbatim>\<open>VisibleMean\<close> has returned and the
  visible precisions are positive.
\<close>

theorem SampleVisible_bounded_rejection:
  "(SampleVisible rn s input output junk g = Some (output', g') \<longrightarrow>
     (\<exists>m n. VisibleMean s input output junk = Some m \<and> 1 \<le> n \<and> n \<le> 10 \<and>
        ((\<lambda>x. Option.bind x (draw_visible rn s)) ^^ n) (Some (m, g)) = Some (output', g') \<and>
        (\<forall>j. 0 < j \<and> j < n \<longrightarrow>
           (\<exists>out gj. ((\<lambda>x. Option.bind x (draw_visible rn s)) ^^ j) (Some (m, g)) = Some (out, gj) \<and>
              \<not> norm2 out < radius s)) \<and>
        (n < 10 \<longrightarrow> norm2 output' < radius s))) \<and>
   (VisibleMean s input output junk = Some m0 \<and>
    (\<forall>i<visibleSize s. 0 < v_elem (mem (parameter s)) (visiblePenalty s) i) \<longrightarrow>
      (\<exists>r. SampleVisible rn s input output junk g = Some r))"
proof (intro conjI impI)
  assume run: "SampleVisible rn s input output junk g = Some (output', g')"
  then obtain m where m: "VisibleMean s input output junk = Some m"
    and tr: "SampleVisible_trials rn s 10 (m, g) = Some (output', g')"
    by (cases "VisibleMean s input output junk") (simp_all add: SampleVisible_def)
  from SampleVisible_trials_draws [OF tr] m
  show "\<exists>m n. VisibleMean s input output junk = Some m \<and> 1 \<le> n \<and> n \<le> 10 \<and>
        ((\<lambda>x. Option.bind x (draw_visible rn s)) ^^ n) (Some (m, g)) = Some (output', g') \<and>
        (\<forall>j. 0 < j \<and> j < n \<longrightarrow>
           (\<exists>out gj. ((\<lambda>x. Option.bind x (draw_visible rn s)) ^^ j) (Some (m, g)) = Some (out, gj) \<and>
              \<not> norm2 out < radius s)) \<and>
        (n < 10 \<longrightarrow> norm2 output' < radius s)"
    by auto
next
  assume a: "VisibleMean s input output junk = Some m0 \<and>
    (\<forall>i<visibleSize s. 0 < v_elem (mem (parameter s)) (visiblePenalty s) i)"
  then have "\<exists>r. SampleVisible_trials rn s 10 (m0, g) = Some r"
    by (intro SampleVisible_trials_total) simp
  with a show "\<exists>r. SampleVisible rn s input output junk g = Some r"
    by (simp add: SampleVisible_def)
qed

lemma VisibleMean_example:
  "VisibleMean (example_policy [1, 0, 1, 1, 0, 0, 1, 1]) \<lparr>n_rows = 4, n_cols = 1, mem = [0, 0, 0, 0]\<rparr>
      \<lparr>n_rows = 2, n_cols = 1, mem = [0, 0]\<rparr> junk = Some \<lparr>n_rows = 2, n_cols = 1, mem = [0, 0]\<rparr>"
  by (simp add: VisibleMean_def example_policy_def upt_2 set_size_def diagmat_i_def col_def
      plus_mat_def scale_r_def times_mat_def mk_mat_def slice_def v_mat_def m_at_def elem_def n_elem_def)

lemma draw_visible_example:
  "draw_visible scripted_RandNormal (example_policy [1, 0, 1, 1, 0, 0, 1, 1])
     (\<lparr>n_rows = r, n_cols = c, mem = [x, y]\<rparr>, z1 # z2 # g)
   = Some (\<lparr>n_rows = r, n_cols = c, mem = [x + z1, y + z2]\<rparr>, g)"
  by (simp add: draw_visible_def example_policy_def upt_2 v_elem_def elem_def put_def)

theorem SampleVisible_bounded_rejection_witness:
  "SampleVisible scripted_RandNormal (example_policy [1, 0, 1, 1, 0, 0, 1, 1])
      \<lparr>n_rows = 4, n_cols = 1, mem = [0, 0, 0, 0]\<rparr> \<lparr>n_rows = 2, n_cols = 1, mem = [0, 0]\<rparr>
      (\<lambda>i. 0) [3, 0, - 5 / 2, 0, 1, 1]
   = Some (\<lparr>n_rows = 2, n_cols = 1, mem = [1 / 2, 0]\<rparr>, [1, 1]) \<and>
   (\<exists>m n. VisibleMean (example_policy [1, 0, 1, 1, 0, 0, 1, 1])
            \<lparr>n_rows = 4, n_cols = 1, mem = [0, 0, 0, 0]\<rparr> \<lparr>n_rows = 2, n_cols = 1, mem = [0, 0]\<rparr>
            (\<lambda>i. 0) = Some m \<and> 1 \<le> n \<and> n \<le> 10 \<and>
        ((\<lambda>x. Option.bind x (draw_visible scripted_RandNormal (example_policy [1, 0, 1, 1, 0, 0, 1, 1])))
           ^^ n) (Some (m, [3, 0, - 5 / 2, 0, 1, 1]))
          = Some (\<lparr>n_rows = 2, n_cols = 1, mem = [1 / 2, 0]\<rparr>, [1, 1]) \<and>
        (\<forall>j. 0 < j \<and> j < n \<longrightarrow>
           (\<exists>out gj. ((\<lambda>x. Option.bind x
                 (draw_visible scripted_RandNormal (example_policy [1, 0, 1, 1, 0, 0, 1, 1]))) ^^ j)
                (Some (m, [3, 0, - 5 / 2, 0, 1, 1])) = Some (out, gj) \<and>
              \<not> norm2 out < radius (example_policy [1, 0, 1, 1, 0, 0, 1, 1]))) \<and>
        (n < 10 \<longrightarrow> norm2 \<lparr>n_rows = 2, n_cols = 1, mem = [1 / 2, 0]\<rparr>
                       < radius (example_policy [1, 0, 1, 1, 0, 0, 1, 1])))"
proof -
  have run: "SampleVisible scripted_RandNormal (example_policy [1, 0, 1, 1, 0, 0, 1, 1])
      \<lparr>n_rows = 4, n_cols = 1, mem = [0, 0, 0, 0]\<rparr> \<lparr>n_rows = 2, n_cols = 1, mem = [0, 0]\<rparr>
      (\<lambda>i. 0) [3, 0, - 5 / 2, 0, 1, 1]
   = Some (\<lparr>n_rows = 2, n_cols = 1, mem = [1 / 2, 0]\<rparr>, [1, 1])"
    using VisibleMean_example [of "\<lambda>i. 0"]
      draw_visible_example [of 2 1 0 0 3 0 "[- 5 / 2, 0, 1, 1]"]
      draw_visible_example [of 2 1 3 0 "- 5 / 2" 0 "[1, 1]"]
    by (simp add: SampleVisible_def SampleVisible_trials_unfold norm2_pair)
       (simp add: example_policy_def)
  from SampleVisible_bounded_rejection [THEN conjunct1, rule_format, OF run] run
  show ?thesis by blast
qed

lemma radius_example: "radius (example_policy p) = 1"
  by (simp add: example_policy_def)

lemma trial_example:
  "0 < n \<Longrightarrow>
   SampleVisible_trials scripted_RandNormal (example_policy [1, 0, 1, 1, 0, 0, 1, 1]) n
     (\<lparr>n_rows = r, n_cols = c, mem = [x, 0]\<rparr>, z # 0 # g)
   = (if \<bar>x + z\<bar> < 1 then Some (\<lparr>n_rows = r, n_cols = c, mem = [x + z, 0]\<rparr>, g)
      else SampleVisible_trials scripted_RandNormal (example_policy [1, 0, 1, 1, 0, 0, 1, 1]) (n - 1)
             (\<lparr>n_rows = r, n_cols = c, mem = [x + z, 0]\<rparr>, g))"
  by (simp add: SampleVisible_trials_unfold draw_visible_example norm2_pair)
     (simp add: example_policy_def)

text \<open>
  C3: every trial of \<^verbatim>\<open>SampleVisible\<close> is to draw unit \<open>i\<close> around component \<open>i\<close> of the
  visible mean.  The source draws in place, \<^verbatim>\<open>output(i) = RandNormal(output(i), ...)\<close>,
  so from the second trial on the mean is the rejected draw.  Visible mean \<open>(0, 0)\<close>,
  radius 1, raw draws \<open>3, 0, 1/2, 0, 0, \<dots>\<close>: the first trial gives \<open>(3, 0)\<close>, the second
  trial gives \<open>(7/2, 0)\<close> where a draw around the visible mean gives \<open>(1/2, 0)\<close>, inside
  the radius; the call returns \<open>(7/2, 0)\<close> after ten trials.
\<close>

theorem SampleVisible_draws_around_previous_draw:
  "VisibleMean (example_policy [1, 0, 1, 1, 0, 0, 1, 1]) \<lparr>n_rows = 4, n_cols = 1, mem = [0, 0, 0, 0]\<rparr>
      \<lparr>n_rows = 2, n_cols = 1, mem = [0, 0]\<rparr> junk = Some \<lparr>n_rows = 2, n_cols = 1, mem = [0, 0]\<rparr> \<and>
   draw_visible scripted_RandNormal (example_policy [1, 0, 1, 1, 0, 0, 1, 1])
      (\<lparr>n_rows = 2, n_cols = 1, mem = [0, 0]\<rparr>,
       [3, 0, 1 / 2, 0, 0, 0, 0, 0, 0, 0, 0, 0, 0, 0, 0, 0, 0, 0, 0, 0])
     = Some (\<lparr>n_rows = 2, n_cols = 1, mem = [3, 0]\<rparr>,
             [1 / 2, 0, 0, 0, 0, 0, 0, 0, 0, 0, 0, 0, 0, 0, 0, 0, 0, 0]) \<and>
   draw_visible scripted_RandNormal (example_policy [1, 0, 1, 1, 0, 0, 1, 1])
      (\<lparr>n_rows = 2, n_cols = 1, mem = [3, 0]\<rparr>,
       [1 / 2, 0, 0, 0, 0, 0, 0, 0, 0, 0, 0, 0, 0, 0, 0, 0, 0, 0])
     = Some (\<lparr>n_rows = 2, n_cols = 1, mem = [7 / 2, 0]\<rparr>,
             [0, 0, 0, 0, 0, 0, 0, 0, 0, 0, 0, 0, 0, 0, 0, 0]) \<and>
   draw_visible scripted_RandNormal (example_policy [1, 0, 1, 1, 0, 0, 1, 1])
      (\<lparr>n_rows = 2, n_cols = 1, mem = [0, 0]\<rparr>,
       [1 / 2, 0, 0, 0, 0, 0, 0, 0, 0, 0, 0, 0, 0, 0, 0, 0, 0, 0])
     = Some (\<lparr>n_rows = 2, n_cols = 1, mem = [1 / 2, 0]\<rparr>,
             [0, 0, 0, 0, 0, 0, 0, 0, 0, 0, 0, 0, 0, 0, 0, 0]) \<and>
   SampleVisible scripted_RandNormal (example_policy [1, 0, 1, 1, 0, 0, 1, 1])
      \<lparr>n_rows = 4, n_cols = 1, mem = [0, 0, 0, 0]\<rparr> \<lparr>n_rows = 2, n_cols = 1, mem = [0, 0]\<rparr> junk
      [3, 0, 1 / 2, 0, 0, 0, 0, 0, 0, 0, 0, 0, 0, 0, 0, 0, 0, 0, 0, 0]
     = Some (\<lparr>n_rows = 2, n_cols = 1, mem = [7 / 2, 0]\<rparr>, [])"
proof (intro conjI)
  show "SampleVisible scripted_RandNormal (example_policy [1, 0, 1, 1, 0, 0, 1, 1])
      \<lparr>n_rows = 4, n_cols = 1, mem = [0, 0, 0, 0]\<rparr> \<lparr>n_rows = 2, n_cols = 1, mem = [0, 0]\<rparr> junk
      [3, 0, 1 / 2, 0, 0, 0, 0, 0, 0, 0, 0, 0, 0, 0, 0, 0, 0, 0, 0, 0]
     = Some (\<lparr>n_rows = 2, n_cols = 1, mem = [7 / 2, 0]\<rparr>, [])"
    using VisibleMean_example [of junk]
    by (simp add: SampleVisible_def trial_example draw_visible_example norm2_pair radius_example)
qed (rule VisibleMean_example, simp_all add: draw_visible_example)

end
